theory Spec2Isabelle
  imports Complex_Main "HOL-Library.Sublist"
begin

section \<open>Python values, exceptions and built-in operations\<close>

text \<open>
  The controller of \<^verbatim>\<open>main.py\<close> is a MicroPython script. Its functions are embedded as
  HOL functions over an explicit world (the reading history and the trace of effects), with the
  outcome of every external call (HTTP transport, sensor, display, clock) given as an argument.
  Every exception the script can meet is a subclass of Python's \<^verbatim>\<open>Exception\<close>, so the
  handler \<^verbatim>\<open>except Exception\<close> catches each value of the type below.
\<close>

datatype exn = OSError | ValueError | KeyError | IndexError | AttributeError | TypeError | NameError

text \<open>
  The objects \<^verbatim>\<open>response.json()\<close> can yield and \<^verbatim>\<open>ujson.dumps\<close> can take; a dict is
  the list of its items, looked up by key. Humidity
  values are floats in the source; they are modelled as reals, which is exact for the comparisons
  of the classifier and idealises the rounding of the running average.
\<close>

datatype pyval =
    PNone
  | PBool bool
  | PNum real
  | PStr string
  | PList "pyval list"
  | PDict "(string \<times> pyval) list"

fun truthy :: "pyval \<Rightarrow> bool" where
  "truthy PNone = False"
| "truthy (PBool b) = b"
| "truthy (PNum x) = (x \<noteq> 0)"
| "truthy (PStr s) = (s \<noteq> [])"
| "truthy (PList xs) = (xs \<noteq> [])"
| "truthy (PDict kvs) = (kvs \<noteq> [])"

text \<open>\<^verbatim>\<open>a or b\<close>\<close>

definition py_or :: "pyval \<Rightarrow> pyval \<Rightarrow> pyval" where
  "py_or a b = (if truthy a then a else b)"

text \<open>\<^verbatim>\<open>obj.get(key, default)\<close>: only a dict has the method.\<close>

fun dict_get :: "pyval \<Rightarrow> string \<Rightarrow> pyval \<Rightarrow> exn + pyval" where
  "dict_get (PDict kvs) key dflt = Inr (case map_of kvs key of None \<Rightarrow> dflt | Some v \<Rightarrow> v)"
| "dict_get _ key dflt = Inl AttributeError"

text \<open>
  \<^verbatim>\<open>obj[0]\<close>. The keys of a dict that came from JSON are strings, so the integer key 0 is
  never present and the lookup raises KeyError; an empty list or string raises IndexError.
\<close>

fun index0 :: "pyval \<Rightarrow> exn + pyval" where
  "index0 (PDict kvs) = Inl KeyError"
| "index0 (PList []) = Inl IndexError"
| "index0 (PList (x # xs)) = Inr x"
| "index0 (PStr []) = Inl IndexError"
| "index0 (PStr (c # cs)) = Inr (PStr [c])"
| "index0 _ = Inl TypeError"

definition bind_exn :: "exn + 'a \<Rightarrow> ('a \<Rightarrow> exn + 'b) \<Rightarrow> exn + 'b" where
  "bind_exn m f = (case m of Inl e \<Rightarrow> Inl e | Inr v \<Rightarrow> f v)"

text \<open>\<^verbatim>\<open>str.split()\<close> without arguments: the maximal runs of non-whitespace characters.\<close>

definition isspace :: "char \<Rightarrow> bool" where
  "isspace c = (c \<in> set [CHR '' '', CHR 0x09, CHR 0x0A, CHR 0x0B, CHR 0x0C, CHR 0x0D])"

fun split_ws :: "string \<Rightarrow> string \<Rightarrow> string list" where
  "split_ws cur [] = (if cur = [] then [] else [cur])"
| "split_ws cur (c # cs) =
     (if isspace c then (if cur = [] then split_ws [] cs else cur # split_ws [] cs)
      else split_ws (cur @ [c]) cs)"

fun str_split :: "pyval \<Rightarrow> exn + string list" where
  "str_split (PStr s) = Inr (split_ws [] s)"
| "str_split _ = Inl AttributeError"

text \<open>\<^verbatim>\<open>sep.join(parts)\<close>\<close>

fun str_join :: "string \<Rightarrow> string list \<Rightarrow> string" where
  "str_join sep [] = []"
| "str_join sep [x] = x"
| "str_join sep (x # y # ys) = x @ sep @ str_join sep (y # ys)"

text \<open>\<^verbatim>\<open>str.upper()\<close> on ASCII letters.\<close>

definition upper_char :: "char \<Rightarrow> char" where
  "upper_char c =
     (case map_of (zip ''abcdefghijklmnopqrstuvwxyz'' ''ABCDEFGHIJKLMNOPQRSTUVWXYZ'') c of
        None \<Rightarrow> c
      | Some u \<Rightarrow> u)"

definition upper :: "string \<Rightarrow> string" where
  "upper s = map upper_char s"

text \<open>\<^verbatim>\<open>sum(xs)\<close>: the left-to-right accumulation from 0.\<close>

definition py_sum :: "real list \<Rightarrow> real" where
  "py_sum xs = foldl (+) 0 xs"

text \<open>
  \<^verbatim>\<open>"{:0Wd}".format(n)\<close> for an integer: decimal digits, zero-padded to width W, the sign
  counted in the width.
\<close>

definition digit_char :: "nat \<Rightarrow> char" where
  "digit_char d = ''0123456789'' ! d"

function digits :: "nat \<Rightarrow> string" where
  "digits n = (if n < 10 then [digit_char n] else digits (n div 10) @ [digit_char (n mod 10)])"
  by pat_completeness auto
termination
  by (relation "measure id") auto

declare digits.simps [simp del]

definition zfill :: "nat \<Rightarrow> string \<Rightarrow> string" where
  "zfill width s = replicate (width - length s) CHR ''0'' @ s"

definition format_0d :: "nat \<Rightarrow> int \<Rightarrow> string" where
  "format_0d width n =
     (if n < 0 then CHR ''-'' # zfill (width - 1) (digits (nat (- n)))
      else zfill width (digits (nat n)))"

text \<open>
  The conversions of a float and of an exception to text (\<^verbatim>\<open>f"{humidity}"\<close>,
  \<^verbatim>\<open>f"{humidity:.2f}"\<close>, \<^verbatim>\<open>f"{e}"\<close>) belong to the interpreter; they are taken as
  parameters.
\<close>

record platform =
  str_float :: "real \<Rightarrow> string"
  format_2f :: "real \<Rightarrow> string"
  str_exn :: "exn \<Rightarrow> string"

section \<open>Configuration\<close>

record config =
  WIFI_SSID :: string
  WIFI_PASSWORD :: string
  SENSOR_STATUS_ENDPOINT :: string
  DATA_INSERT_ENDPOINT :: string
  GEMINI_API_KEY :: string
  GEMINI_ENDPOINT :: string
  I2C_ADDR :: nat
  ROWS :: nat
  COLS :: nat
  IDEAL_HUMIDITY_LOW :: real
  IDEAL_HUMIDITY_HIGH :: real
  SENSOR_PIN :: nat
  I2C_SCL :: nat
  I2C_SDA :: nat

definition CONFIG :: config where
  "CONFIG = \<lparr>
     WIFI_SSID = ''Wokwi-GUEST'',
     WIFI_PASSWORD = '''',
     SENSOR_STATUS_ENDPOINT = ''https://apex.oracle.com/pls/apex/leds/sensor_status/status?id=1'',
     DATA_INSERT_ENDPOINT = ''https://apex.oracle.com/pls/apex/leds/sensor_status/data'',
     GEMINI_API_KEY = '''',
     GEMINI_ENDPOINT = ''https://generativelanguage.googleapis.com/v1beta/models/gemini-1.5-flash:generateContent'',
     I2C_ADDR = 39,
     ROWS = 2,
     COLS = 16,
     IDEAL_HUMIDITY_LOW = 60,
     IDEAL_HUMIDITY_HIGH = 75,
     SENSOR_PIN = 4,
     I2C_SCL = 22,
     I2C_SDA = 21 \<rparr>"

section \<open>The world: reading history and trace of effects\<close>

text \<open>The body handed to \<^verbatim>\<open>urequests.post\<close>: the text \<^verbatim>\<open>ujson.dumps\<close> makes of a value.\<close>

datatype body = Json_text pyval

definition ujson_dumps :: "pyval \<Rightarrow> body" where
  "ujson_dumps v = Json_text v"

datatype event =
    Lcd_clear
  | Lcd_putstr string
  | Sleep nat
  | Print string
  | Wlan_active bool
  | Wlan_connect string string
  | Urequests_get string
  | Urequests_post string body "(string \<times> string) list"

record world =
  humidity_readings :: "real list"
  events :: "event list"

type_synonym 'a result = "(exn + 'a) \<times> world"

definition emit :: "event \<Rightarrow> world \<Rightarrow> world" where
  "emit e w = w\<lparr>events := events w @ [e]\<rparr>"

text \<open>Sequencing of two steps, the second skipped when the first raises.\<close>

definition and_then :: "'a result \<Rightarrow> ('a \<Rightarrow> world \<Rightarrow> 'b result) \<Rightarrow> 'b result" where
  "and_then m f = (case m of (Inl e, w) \<Rightarrow> (Inl e, w) | (Inr v, w) \<Rightarrow> f v w)"

text \<open>\<^verbatim>\<open>try: body  except Exception as e: handler\<close>; the world keeps what the body did.\<close>

definition try_except :: "'a result \<Rightarrow> (exn \<Rightarrow> world \<Rightarrow> 'a result) \<Rightarrow> 'a result" where
  "try_except m handler = (case m of (Inl e, w) \<Rightarrow> handler e w | (Inr v, w) \<Rightarrow> (Inr v, w))"

section \<open>The functions of main.py\<close>

definition log_msg :: "string \<Rightarrow> string \<Rightarrow> world \<Rightarrow> world" where
  "log_msg message level w = emit (Print (''['' @ upper level @ ''] '' @ message)) w"

text \<open>
  \<^verbatim>\<open>update_lcd(message, delay)\<close>: clear, write, sleep. The display driver may raise in
  \<^verbatim>\<open>lcd.clear()\<close> or in \<^verbatim>\<open>lcd.putstr()\<close>; nothing in the script catches it here.
\<close>

datatype lcd_outcome = Lcd_ok | Clear_raises exn | Putstr_raises exn

definition update_lcd :: "lcd_outcome \<Rightarrow> string \<Rightarrow> nat \<Rightarrow> world \<Rightarrow> unit result" where
  "update_lcd out message delay w =
     (case out of
        Clear_raises e \<Rightarrow> (Inl e, w)
      | Putstr_raises e \<Rightarrow> (Inl e, emit Lcd_clear w)
      | Lcd_ok \<Rightarrow> (Inr (), emit (Sleep delay) (emit (Lcd_putstr message) (emit Lcd_clear w))))"

text \<open>
  What \<^verbatim>\<open>urequests.get\<close> or \<^verbatim>\<open>urequests.post\<close> does: it raises, or it returns a response
  whose \<^verbatim>\<open>json()\<close> and \<^verbatim>\<open>close()\<close> may raise in turn.
\<close>

record response =
  json_result :: "exn + pyval"
  close_result :: "exn option"

type_synonym http_outcome = "exn + response"

text \<open>\<^verbatim>\<open>data = response.json(); response.close(); return data\<close>\<close>

definition read_response :: "response \<Rightarrow> world \<Rightarrow> pyval result" where
  "read_response r w =
     (case json_result r of
        Inl e \<Rightarrow> (Inl e, w)
      | Inr data \<Rightarrow> (case close_result r of Some e \<Rightarrow> (Inl e, w) | None \<Rightarrow> (Inr data, w)))"

definition json_headers :: "(string \<times> string) list" where
  "json_headers = [(''Content-Type'', ''application/json'')]"

text \<open>
  The body of the \<^verbatim>\<open>try\<close> of \<^verbatim>\<open>request_endpoint\<close>. A method other than get and post
  leaves \<^verbatim>\<open>response\<close> unbound, which raises NameError at \<^verbatim>\<open>response.json()\<close>.
\<close>

definition request_endpoint_try :: "http_outcome \<Rightarrow> string \<Rightarrow> pyval \<Rightarrow> string \<Rightarrow> world \<Rightarrow> pyval result" where
  "request_endpoint_try out url params method w =
     (if method = ''get'' then
        (case out of
           Inl e \<Rightarrow> (Inl e, emit (Urequests_get url) w)
         | Inr r \<Rightarrow> read_response r (emit (Urequests_get url) w))
      else if method = ''post'' then
        (case out of
           Inl e \<Rightarrow> (Inl e, emit (Urequests_post url (ujson_dumps params) json_headers) w)
         | Inr r \<Rightarrow> (Inr PNone, emit (Urequests_post url (ujson_dumps params) json_headers) w))
      else (Inl NameError, w))"

definition request_endpoint :: "platform \<Rightarrow> http_outcome \<Rightarrow> string \<Rightarrow> pyval \<Rightarrow> string \<Rightarrow> world \<Rightarrow> pyval result" where
  "request_endpoint pf out url params method w =
     try_except (request_endpoint_try out url params method w)
       (\<lambda>e w'. (Inr PNone,
          log_msg (''Failed to reach endpoint '' @ url @ '': '' @ str_exn pf e) ''error'' w'))"

text \<open>\<^verbatim>\<open>data.get("items", {})[0].get("status", 'OFF') == 'ON'\<close>\<close>

definition status_is_on :: "pyval \<Rightarrow> exn + bool" where
  "status_is_on data =
     bind_exn (dict_get data ''items'' (PDict [])) (\<lambda>items.
     bind_exn (index0 items) (\<lambda>item.
     bind_exn (dict_get item ''status'' (PStr ''OFF'')) (\<lambda>s.
     Inr (s = PStr ''ON''))))"

definition check_sensor_status :: "platform \<Rightarrow> config \<Rightarrow> http_outcome \<Rightarrow> world \<Rightarrow> bool result" where
  "check_sensor_status pf cfg out w =
     and_then (request_endpoint pf out (SENSOR_STATUS_ENDPOINT cfg) PNone ''get'' w)
       (\<lambda>r w'. (status_is_on (py_or r (PDict [])), w'))"

definition calculate_humidity_status :: "config \<Rightarrow> real \<Rightarrow> string" where
  "calculate_humidity_status cfg humidity =
     (if humidity < IDEAL_HUMIDITY_LOW cfg then ''Too Dry!''
      else if humidity > IDEAL_HUMIDITY_HIGH cfg then ''Too Humid!''
      else ''Optimal'')"

text \<open>\<^verbatim>\<open>utime.localtime()\<close>: year, month, mday, hour, minute, second, weekday, yearday.\<close>

type_synonym localtime = "int \<times> int \<times> int \<times> int \<times> int \<times> int \<times> int \<times> int"

definition format_datetime :: "localtime \<Rightarrow> string" where
  "format_datetime lt =
     (case lt of (year, month, mday, hour, minute, second, weekday, yearday) \<Rightarrow>
        format_0d 4 year @ ''-'' @ format_0d 2 month @ ''-'' @ format_0d 2 mday @ '' '' @
        format_0d 2 hour @ '':'' @ format_0d 2 minute @ '':'' @ format_0d 2 second)"

definition upload_params :: "real \<Rightarrow> string \<Rightarrow> real \<Rightarrow> pyval" where
  "upload_params humidity current_time avg_humidity =
     PDict [(''humidity'', PNum humidity),
            (''datetime'', PStr current_time),
            (''avg_humidity'', PNum avg_humidity)]"

definition store_humidity_data ::
  "platform \<Rightarrow> config \<Rightarrow> localtime \<Rightarrow> http_outcome \<Rightarrow> real \<Rightarrow> real \<Rightarrow> world \<Rightarrow> unit result" where
  "store_humidity_data pf cfg lt out humidity avg_humidity w =
     and_then
       (request_endpoint pf out (DATA_INSERT_ENDPOINT cfg)
          (upload_params humidity (format_datetime lt) avg_humidity) ''post'' w)
       (\<lambda>_ w'. (Inr (), w'))"

definition calculate_average_humidity :: "world \<Rightarrow> real" where
  "calculate_average_humidity w =
     (if humidity_readings w \<noteq> []
      then py_sum (humidity_readings w) / real (length (humidity_readings w))
      else 0)"

definition gemini_payload :: "string \<Rightarrow> pyval" where
  "gemini_payload prompt =
     PDict [(''contents'', PList [PDict [(''parts'', PList [PDict [(''text'', PStr prompt)]])]])]"

definition request_gemini_response :: "platform \<Rightarrow> config \<Rightarrow> http_outcome \<Rightarrow> string \<Rightarrow> world \<Rightarrow> pyval result" where
  "request_gemini_response pf cfg out prompt w =
     (let url = GEMINI_ENDPOINT cfg @ ''?key='' @ GEMINI_API_KEY cfg;
          w1 = emit (Urequests_post url (ujson_dumps (gemini_payload prompt)) json_headers) w
      in try_except
           (case out of Inl e \<Rightarrow> (Inl e, w1) | Inr r \<Rightarrow> read_response r w1)
           (\<lambda>e w'. (Inr PNone,
              log_msg (''Failed to reach Gemini endpoint: '' @ str_exn pf e) ''error'' w')))"

definition advice_prompt :: "platform \<Rightarrow> real \<Rightarrow> string \<Rightarrow> string" where
  "advice_prompt pf humidity humidity_status =
     ''The current humidity level is '' @ str_float pf humidity @ ''%, status: '' @
     humidity_status @
     ''. What brief advice would you provide for vegetable processing under these conditions?''"

text \<open>
  \<^verbatim>\<open>response.get("candidates", [{}])[0].get("content", {}).get("parts", [])\<close>, then
  \<^verbatim>\<open>generated_text[0].get("text", "No advice available.")\<close>, then the first 20 words.
\<close>

definition advice_text :: "pyval \<Rightarrow> exn + string" where
  "advice_text response =
     bind_exn (dict_get response ''candidates'' (PList [PDict []])) (\<lambda>candidates.
     bind_exn (index0 candidates) (\<lambda>candidate.
     bind_exn (dict_get candidate ''content'' (PDict [])) (\<lambda>content.
     bind_exn (dict_get content ''parts'' (PList [])) (\<lambda>generated_text.
     bind_exn (index0 generated_text) (\<lambda>part.
     bind_exn (dict_get part ''text'' (PStr ''No advice available.'')) (\<lambda>txt.
     bind_exn (str_split txt) (\<lambda>ws.
     Inr (str_join '' '' (take 20 ws) @ ''...''))))))))"

definition generate_vegetable_suggestions ::
  "platform \<Rightarrow> config \<Rightarrow> http_outcome \<Rightarrow> lcd_outcome \<Rightarrow> real \<Rightarrow> string \<Rightarrow> world \<Rightarrow> unit result" where
  "generate_vegetable_suggestions pf cfg gemini_out lcd_out humidity humidity_status w =
     and_then
       (request_gemini_response pf cfg gemini_out (advice_prompt pf humidity humidity_status) w)
       (\<lambda>response w'.
          if truthy response then
            (case advice_text response of
               Inl e \<Rightarrow> (Inl e, w')
             | Inr advice \<Rightarrow> update_lcd lcd_out (humidity_status @ ''\<newline>'' @ advice) 3 w')
          else update_lcd lcd_out ''Failed to get advice'' 2 w')"

text \<open>
  What the outside world does during one cycle of the loop, one field per call site: the status
  poll, the sensor, the display at each place it is driven, the advisory call, the clock and the
  upload.
\<close>

record cycle_env =
  status_response :: http_outcome
  measure_result :: "exn option"
  humidity_result :: "real option"
  lcd_reading :: lcd_outcome
  gemini_response :: http_outcome
  lcd_advice :: lcd_outcome
  localtime_result :: localtime
  data_response :: http_outcome
  lcd_error :: lcd_outcome
  lcd_off :: lcd_outcome
  lcd_working :: lcd_outcome

definition process_humidity_try :: "platform \<Rightarrow> config \<Rightarrow> cycle_env \<Rightarrow> world \<Rightarrow> unit result" where
  "process_humidity_try pf cfg env w =
     (case measure_result env of
        Some e \<Rightarrow> (Inl e, w)
      | None \<Rightarrow>
         (case humidity_result env of
            None \<Rightarrow> (Inr (), w)
          | Some humidity \<Rightarrow>
             (let w1 = w\<lparr>humidity_readings := humidity_readings w @ [humidity]\<rparr>;
                  avg_humidity = calculate_average_humidity w1;
                  humidity_status = calculate_humidity_status cfg humidity
              in and_then
                   (update_lcd (lcd_reading env)
                      (''Humidity: '' @ format_2f pf humidity @ ''%\<newline>'' @ humidity_status) 3 w1)
                   (\<lambda>_ w2. and_then
                      (generate_vegetable_suggestions pf cfg (gemini_response env) (lcd_advice env)
                         humidity humidity_status w2)
                      (\<lambda>_ w3. store_humidity_data pf cfg (localtime_result env) (data_response env)
                         humidity avg_humidity w3)))))"

definition process_humidity :: "platform \<Rightarrow> config \<Rightarrow> cycle_env \<Rightarrow> world \<Rightarrow> unit result" where
  "process_humidity pf cfg env w =
     try_except (process_humidity_try pf cfg env w)
       (\<lambda>e w'. update_lcd (lcd_error env) ''Sensor error'' 2
          (log_msg (''Sensor error: '' @ str_exn pf e) ''error'' w'))"

text \<open>One iteration of the \<^verbatim>\<open>while True\<close> loop of \<^verbatim>\<open>main\<close>.\<close>

definition main_loop_body :: "platform \<Rightarrow> config \<Rightarrow> cycle_env \<Rightarrow> world \<Rightarrow> unit result" where
  "main_loop_body pf cfg env w =
     and_then (check_sensor_status pf cfg (status_response env) w)
       (\<lambda>enabled w1. and_then
          (if enabled then process_humidity pf cfg env w1
           else update_lcd (lcd_off env) ''Sensor is OFF'' 2 w1)
          (\<lambda>_ w2. and_then (update_lcd (lcd_working env) ''Sensor working...'' 2 w2)
             (\<lambda>_ w3. (Inr (), emit (Sleep 2) w3))))"

text \<open>
  The loop never returns by itself. It is run on the environments of finitely many cycles, the
  oldest first: the result is an exception that left the loop, or the world after the last of
  these cycles with the loop still running.
\<close>

fun main_loop :: "platform \<Rightarrow> config \<Rightarrow> cycle_env list \<Rightarrow> world \<Rightarrow> unit result" where
  "main_loop pf cfg [] w = (Inr (), w)"
| "main_loop pf cfg (env # envs) w =
     and_then (main_loop_body pf cfg env w) (\<lambda>_ w'. main_loop pf cfg envs w')"

text \<open>
  \<^verbatim>\<open>connect_wifi\<close>: the answers of the successive \<^verbatim>\<open>wlan.isconnected()\<close> calls are a
  function of the call's number.
\<close>

fun wait_connected :: "(nat \<Rightarrow> bool) \<Rightarrow> string \<Rightarrow> nat \<Rightarrow> nat \<Rightarrow> world \<Rightarrow> bool \<times> world" where
  "wait_connected isconnected ip 0 k w = (False, emit (Print ''WiFi Connect Failed'') w)"
| "wait_connected isconnected ip (Suc n) k w =
     (if isconnected k
      then (True, emit (Print (''IP Address: '' @ ip)) (emit (Print ''WiFi Connected!'') w))
      else wait_connected isconnected ip n (Suc k) (emit (Sleep 1) w))"

definition connect_wifi :: "(nat \<Rightarrow> bool) \<Rightarrow> string \<Rightarrow> string \<Rightarrow> string \<Rightarrow> world \<Rightarrow> bool \<times> world" where
  "connect_wifi isconnected ip ssid password w =
     (let w1 = emit (Wlan_active True) w
      in if \<not> isconnected 0
         then wait_connected isconnected ip 10 1
                (emit (Wlan_connect ssid password) (emit (Print ''Connecting to WiFi...'') w1))
         else (True, emit (Print ''Already connected.'') w1))"

definition main ::
  "platform \<Rightarrow> config \<Rightarrow> lcd_outcome \<Rightarrow> (nat \<Rightarrow> bool) \<Rightarrow> string \<Rightarrow> lcd_outcome \<Rightarrow> cycle_env list \<Rightarrow>
   world \<Rightarrow> unit result" where
  "main pf cfg lcd_banner isconnected ip lcd_fail envs w =
     and_then (update_lcd lcd_banner ''Veg Sanitization\<newline>Initializing...'' 2 w)
       (\<lambda>_ w1. case connect_wifi isconnected ip (WIFI_SSID cfg) (WIFI_PASSWORD cfg) w1 of
          (False, w2) \<Rightarrow> update_lcd lcd_fail ''WiFi Fail!\<newline>Check config'' 2 w2
        | (True, w2) \<Rightarrow> main_loop pf cfg envs w2)"

section \<open>Frame of the reading history\<close>

text \<open>
  \<open>frame w w'\<close>: from \<open>w\<close> to \<open>w'\<close> the reading history is untouched and the trace of effects
  has only grown.
\<close>

definition frame :: "world \<Rightarrow> world \<Rightarrow> bool" where
  "frame w w' = (humidity_readings w' = humidity_readings w \<and> prefix (events w) (events w'))"

text \<open>
  \<open>grows n w w'\<close>: the history of \<open>w'\<close> starts with the history of \<open>w\<close>, unchanged and in
  order, and is longer by at most \<open>n\<close> values.
\<close>

definition grows :: "nat \<Rightarrow> world \<Rightarrow> world \<Rightarrow> bool" where
  "grows n w w' =
     (prefix (humidity_readings w) (humidity_readings w') \<and>
      length (humidity_readings w') \<le> length (humidity_readings w) + n)"

text \<open>A call of \<^verbatim>\<open>urequests.post\<close>, among the effects.\<close>

fun is_post :: "event \<Rightarrow> bool" where
  "is_post (Urequests_post url b hs) = True"
| "is_post _ = False"

text \<open>A call of \<^verbatim>\<open>urequests.post\<close> to the given URL.\<close>

fun is_post_to :: "string \<Rightarrow> event \<Rightarrow> bool" where
  "is_post_to u (Urequests_post url b hs) = (url = u)"
| "is_post_to u _ = False"

text \<open>
  The world right after \<^verbatim>\<open>process_humidity\<close> has appended a reading and shown it with its
  status for three seconds.
\<close>

definition reading_shown :: "platform \<Rightarrow> config \<Rightarrow> real \<Rightarrow> world \<Rightarrow> world" where
  "reading_shown pf cfg v w =
     w\<lparr>humidity_readings := humidity_readings w @ [v],
       events := events w @
         [Lcd_clear,
          Lcd_putstr (''Humidity: '' @ format_2f pf v @ ''%\<newline>'' @ calculate_humidity_status cfg v),
          Sleep 3]\<rparr>"

section \<open>Shape of the upload timestamp\<close>

text \<open>
  A text has the shape of a pattern when it agrees with it character by character, the letter d
  of the pattern standing for any decimal digit.
\<close>

definition is_digit :: "char \<Rightarrow> bool" where
  "is_digit c = (c \<in> set ''0123456789'')"

fun matches :: "string \<Rightarrow> string \<Rightarrow> bool" where
  "matches [] [] = True"
| "matches (p # ps) (c # cs) = ((if p = CHR ''d'' then is_digit c else c = p) \<and> matches ps cs)"
| "matches _ _ = False"

definition is_datetime_format :: "string \<Rightarrow> bool" where
  "is_datetime_format s = matches ''dddd-dd-dd dd:dd:dd'' s"

text \<open>The ranges of \<^verbatim>\<open>utime.localtime()\<close>, for the fields the timestamp uses.\<close>

definition localtime_in_range :: "localtime \<Rightarrow> bool" where
  "localtime_in_range lt =
     (case lt of (year, month, mday, hour, minute, second, weekday, yearday) \<Rightarrow>
        0 \<le> year \<and> year \<le> 9999 \<and> 1 \<le> month \<and> month \<le> 12 \<and> 1 \<le> mday \<and> mday \<le> 31 \<and>
        0 \<le> hour \<and> hour \<le> 23 \<and> 0 \<le> minute \<and> minute \<le> 59 \<and> 0 \<le> second \<and> second \<le> 59)"

text \<open>
  Reading a timestamp back: the number a run of decimal digits denotes, and the six numbers at
  the places of year, month, day, hour, minute and second.
\<close>

definition digit_value :: "char \<Rightarrow> nat" where
  "digit_value c = length (takeWhile (\<lambda>d. d \<noteq> c) ''0123456789'')"

definition read_decimal :: "string \<Rightarrow> nat" where
  "read_decimal s = foldl (\<lambda>acc c. 10 * acc + digit_value c) 0 s"

definition datetime_fields :: "string \<Rightarrow> int \<times> int \<times> int \<times> int \<times> int \<times> int" where
  "datetime_fields s =
     (int (read_decimal (take 4 s)),
      int (read_decimal (take 2 (drop 5 s))),
      int (read_decimal (take 2 (drop 8 s))),
      int (read_decimal (take 2 (drop 11 s))),
      int (read_decimal (take 2 (drop 14 s))),
      int (read_decimal (take 2 (drop 17 s))))"

text \<open>The fields of \<^verbatim>\<open>utime.localtime()\<close> that the timestamp is made of.\<close>

definition clock_fields :: "localtime \<Rightarrow> int \<times> int \<times> int \<times> int \<times> int \<times> int" where
  "clock_fields lt =
     (case lt of (year, month, mday, hour, minute, second, weekday, yearday) \<Rightarrow>
        (year, month, mday, hour, minute, second))"

section \<open>Concrete inputs\<close>

definition pf0 :: platform where
  "pf0 = \<lparr> str_float = (\<lambda>x. ''65.0''), format_2f = (\<lambda>x. ''65.00''), str_exn = (\<lambda>e. ''error'') \<rparr>"

definition w0 :: world where
  "w0 = \<lparr> humidity_readings = [], events = [] \<rparr>"

definition status_on :: response where
  "status_on = \<lparr> json_result = Inr (PDict [(''items'', PList [PDict [(''status'', PStr ''ON'')]])]),
                 close_result = None \<rparr>"

definition advice_ok :: response where
  "advice_ok = \<lparr> json_result = Inr (PDict [(''candidates'', PList [PDict [(''content'',
                    PDict [(''parts'', PList [PDict [(''text'', PStr ''Keep produce  chilled'')]])])]])]),
                 close_result = None \<rparr>"

definition advice_no_parts :: response where
  "advice_no_parts = \<lparr> json_result = Inr (PDict [(''candidates'', PList [PDict [(''content'',
                          PDict [(''parts'', PList [])])]])]),
                       close_result = None \<rparr>"

definition upload_ok :: response where
  "upload_ok = \<lparr> json_result = Inr PNone, close_result = None \<rparr>"

definition env_ok :: cycle_env where
  "env_ok = \<lparr> status_response = Inr status_on,
              measure_result = None,
              humidity_result = Some 65,
              lcd_reading = Lcd_ok,
              gemini_response = Inr advice_ok,
              lcd_advice = Lcd_ok,
              localtime_result = (2024, 5, 17, 9, 3, 7, 4, 138),
              data_response = Inr upload_ok,
              lcd_error = Lcd_ok,
              lcd_off = Lcd_ok,
              lcd_working = Lcd_ok \<rparr>"

section \<open>Auxiliary facts\<close>

lemma foldl_plus_sum_list: "foldl (+) (a::real) xs = a + sum_list xs"
  by (induction xs arbitrary: a) simp_all

lemma py_sum_sum_list: "py_sum xs = sum_list xs"
  by (simp add: py_sum_def foldl_plus_sum_list)

lemma upper_error: "upper ''error'' = ''ERROR''"
  by (simp add: upper_def upper_char_def)

lemma log_msg_error:
  "log_msg message ''error'' w = w\<lparr>events := events w @ [Print (''[ERROR] '' @ message)]\<rparr>"
  by (simp add: log_msg_def emit_def upper_error)

lemma update_lcd_ok:
  "update_lcd Lcd_ok message delay w =
     (Inr (), w\<lparr>events := events w @ [Lcd_clear, Lcd_putstr message, Sleep delay]\<rparr>)"
  by (simp add: update_lcd_def emit_def)

lemma update_lcd_clear_raises: "update_lcd (Clear_raises e) message delay w = (Inl e, w)"
  by (simp add: update_lcd_def)

lemma update_lcd_putstr_raises:
  "update_lcd (Putstr_raises e) message delay w = (Inl e, w\<lparr>events := events w @ [Lcd_clear]\<rparr>)"
  by (simp add: update_lcd_def emit_def)

lemmas update_lcd_cases = update_lcd_ok update_lcd_clear_raises update_lcd_putstr_raises

lemma request_endpoint_get_raise:
  "request_endpoint pf (Inl e) url params ''get'' w =
     (Inr PNone, w\<lparr>events := events w @ [Urequests_get url,
        Print (''[ERROR] Failed to reach endpoint '' @ url @ '': '' @ str_exn pf e)]\<rparr>)"
  by (simp add: request_endpoint_def request_endpoint_try_def try_except_def log_msg_error emit_def)

lemma request_endpoint_get_response:
  "request_endpoint pf (Inr r) url params ''get'' w =
     (case json_result r of
        Inl e \<Rightarrow> (Inr PNone, w\<lparr>events := events w @ [Urequests_get url,
            Print (''[ERROR] Failed to reach endpoint '' @ url @ '': '' @ str_exn pf e)]\<rparr>)
      | Inr data \<Rightarrow>
          (case close_result r of
             Some e \<Rightarrow> (Inr PNone, w\<lparr>events := events w @ [Urequests_get url,
               Print (''[ERROR] Failed to reach endpoint '' @ url @ '': '' @ str_exn pf e)]\<rparr>)
           | None \<Rightarrow> (Inr data, w\<lparr>events := events w @ [Urequests_get url]\<rparr>)))"
  by (simp add: request_endpoint_def request_endpoint_try_def try_except_def read_response_def
      log_msg_error emit_def split: sum.splits option.splits)

lemma request_endpoint_post_raise:
  "request_endpoint pf (Inl e) url params ''post'' w =
     (Inr PNone, w\<lparr>events := events w @ [Urequests_post url (ujson_dumps params) json_headers,
        Print (''[ERROR] Failed to reach endpoint '' @ url @ '': '' @ str_exn pf e)]\<rparr>)"
  by (simp add: request_endpoint_def request_endpoint_try_def try_except_def log_msg_error emit_def)

lemma request_endpoint_post_response:
  "request_endpoint pf (Inr r) url params ''post'' w =
     (Inr PNone, w\<lparr>events := events w @ [Urequests_post url (ujson_dumps params) json_headers]\<rparr>)"
  by (simp add: request_endpoint_def request_endpoint_try_def try_except_def emit_def)

lemma request_endpoint_other_method:
  "method \<noteq> ''get'' \<Longrightarrow> method \<noteq> ''post'' \<Longrightarrow>
   request_endpoint pf out url params method w =
     (Inr PNone, w\<lparr>events := events w @
        [Print (''[ERROR] Failed to reach endpoint '' @ url @ '': '' @ str_exn pf NameError)]\<rparr>)"
  by (simp add: request_endpoint_def request_endpoint_try_def try_except_def log_msg_error)

lemma request_endpoint_shape:
  "\<exists>v evs. request_endpoint pf out url params method w = (Inr v, w\<lparr>events := events w @ evs\<rparr>)"
proof -
  consider (get) "method = ''get''" | (post) "method = ''post''"
    | (other) "method \<noteq> ''get''" "method \<noteq> ''post''"
    by blast
  then show ?thesis
  proof cases
    case get
    show ?thesis
    proof (cases out)
      case (Inl e)
      then show ?thesis unfolding get by (simp only: request_endpoint_get_raise) blast
    next
      case (Inr r)
      show ?thesis
      proof (cases "json_result r")
        case (Inl e)
        then show ?thesis unfolding get Inr
          by (simp only: request_endpoint_get_response sum.case) blast
      next
        case jr: (Inr data)
        show ?thesis
        proof (cases "close_result r")
          case None
          then show ?thesis unfolding get Inr using jr
            by (simp only: request_endpoint_get_response sum.case option.case) blast
        next
          case (Some e)
          then show ?thesis unfolding get Inr using jr
            by (simp only: request_endpoint_get_response sum.case option.case) blast
        qed
      qed
    qed
  next
    case post
    show ?thesis
    proof (cases out)
      case (Inl e)
      then show ?thesis unfolding post by (simp only: request_endpoint_post_raise) blast
    next
      case (Inr r)
      then show ?thesis unfolding post by (simp only: request_endpoint_post_response) blast
    qed
  next
    case other
    then show ?thesis using request_endpoint_other_method [of "method" pf out url params w] by blast
  qed
qed

lemma frame_refl: "frame w w"
  by (simp add: frame_def)

lemma frame_trans: "frame w w1 \<Longrightarrow> frame w1 w2 \<Longrightarrow> frame w w2"
  by (auto simp: frame_def)

lemma frame_events: "frame w (w\<lparr>events := events w @ evs\<rparr>)"
  by (simp add: frame_def)

lemma frame_emit: "frame w (emit e w)"
  by (simp add: frame_def emit_def)

lemma frame_log_msg: "frame w (log_msg message level w)"
  by (simp add: log_msg_def frame_emit)

lemma frame_update_lcd: "frame w (snd (update_lcd out message delay w))"
  by (cases out) (simp_all add: update_lcd_cases frame_events frame_refl)

lemma frame_and_then:
  assumes "frame w (snd m)" and "\<And>v w1. frame w1 (snd (f v w1))"
  shows "frame w (snd (and_then m f))"
proof (cases m)
  case (Pair r w1)
  show ?thesis
  proof (cases r)
    case (Inl e)
    with Pair assms(1) show ?thesis by (simp add: and_then_def)
  next
    case (Inr v)
    with Pair assms(1) assms(2) [of w1 v] show ?thesis
      by (simp add: and_then_def) (erule frame_trans)
  qed
qed

lemma frame_try_except:
  assumes "frame w (snd m)" and "\<And>e w1. frame w1 (snd (h e w1))"
  shows "frame w (snd (try_except m h))"
proof (cases m)
  case (Pair r w1)
  show ?thesis
  proof (cases r)
    case (Inl e)
    with Pair assms(1) assms(2) [of w1 e] show ?thesis
      by (simp add: try_except_def) (erule frame_trans)
  next
    case (Inr v)
    with Pair assms(1) show ?thesis by (simp add: try_except_def)
  qed
qed

lemma frame_request_endpoint: "frame w (snd (request_endpoint pf out url params method w))"
proof -
  obtain v evs where "request_endpoint pf out url params method w = (Inr v, w\<lparr>events := events w @ evs\<rparr>)"
    using request_endpoint_shape by blast
  then show ?thesis by (simp add: frame_events)
qed

lemma request_endpoint_returns: "\<exists>v. fst (request_endpoint pf out url params method w) = Inr v"
  by (simp add: request_endpoint_def try_except_def split: prod.splits sum.splits)

lemma frame_check_sensor_status: "frame w (snd (check_sensor_status pf cfg out w))"
  unfolding check_sensor_status_def
  by (rule frame_and_then) (simp_all add: frame_request_endpoint frame_refl)

lemma frame_store_humidity_data: "frame w (snd (store_humidity_data pf cfg lt out h a w))"
  unfolding store_humidity_data_def
  by (rule frame_and_then) (simp_all add: frame_request_endpoint frame_refl)

lemma frame_read_response: "frame w (snd (read_response r w))"
  by (simp add: read_response_def frame_refl split: sum.splits option.splits)

lemma frame_request_gemini_response: "frame w (snd (request_gemini_response pf cfg out prompt w))"
  unfolding request_gemini_response_def Let_def
proof (rule frame_try_except)
  show "frame w (snd (case out of
      Inl e \<Rightarrow> (Inl e, emit (Urequests_post (GEMINI_ENDPOINT cfg @ ''?key='' @ GEMINI_API_KEY cfg)
                 (ujson_dumps (gemini_payload prompt)) json_headers) w)
    | Inr r \<Rightarrow> read_response r (emit (Urequests_post (GEMINI_ENDPOINT cfg @ ''?key='' @ GEMINI_API_KEY cfg)
                 (ujson_dumps (gemini_payload prompt)) json_headers) w)))"
    by (cases out) (auto intro: frame_trans [OF frame_emit frame_read_response] frame_emit)
next
  fix e w1
  show "frame w1 (snd (Inr PNone, log_msg (''Failed to reach Gemini endpoint: '' @ str_exn pf e) ''error'' w1))"
    by (simp add: frame_log_msg)
qed

lemma frame_generate_vegetable_suggestions:
  "frame w (snd (generate_vegetable_suggestions pf cfg gout lout h st w))"
  unfolding generate_vegetable_suggestions_def
  by (rule frame_and_then)
     (simp_all add: frame_request_gemini_response frame_update_lcd frame_refl split: sum.splits)

lemma status_is_on_no_items:
  "status_is_on (py_or (PDict (filter (\<lambda>kv. fst kv \<noteq> ''items'') kvs)) (PDict [])) = Inl KeyError"
proof -
  have "map_of (filter (\<lambda>kv. fst kv \<noteq> ''items'') kvs) ''items'' = None"
    by (induction kvs) auto
  then show ?thesis
    by (simp add: status_is_on_def py_or_def bind_exn_def)
qed

lemma check_sensor_status_transport_raises:
  "check_sensor_status pf cfg (Inl e) w =
     (Inl KeyError, w\<lparr>events := events w @ [Urequests_get (SENSOR_STATUS_ENDPOINT cfg),
        Print (''[ERROR] Failed to reach endpoint '' @ SENSOR_STATUS_ENDPOINT cfg @ '': '' @ str_exn pf e)]\<rparr>)"
  by (simp add: check_sensor_status_def request_endpoint_get_raise and_then_def py_or_def
      status_is_on_def bind_exn_def)

lemma check_sensor_status_response:
  "json_result r = Inr data \<Longrightarrow> close_result r = None \<Longrightarrow>
   check_sensor_status pf cfg (Inr r) w =
     (status_is_on (py_or data (PDict [])), w\<lparr>events := events w @ [Urequests_get (SENSOR_STATUS_ENDPOINT cfg)]\<rparr>)"
  by (simp add: check_sensor_status_def request_endpoint_get_response and_then_def)

lemma request_gemini_response_raise:
  "request_gemini_response pf cfg (Inl e) prompt w =
     (Inr PNone, w\<lparr>events := events w @
        [Urequests_post (GEMINI_ENDPOINT cfg @ ''?key='' @ GEMINI_API_KEY cfg)
           (ujson_dumps (gemini_payload prompt)) json_headers,
         Print (''[ERROR] Failed to reach Gemini endpoint: '' @ str_exn pf e)]\<rparr>)"
  by (simp add: request_gemini_response_def try_except_def log_msg_error emit_def)

lemma request_gemini_response_response:
  "json_result r = Inr data \<Longrightarrow> close_result r = None \<Longrightarrow>
   request_gemini_response pf cfg (Inr r) prompt w =
     (Inr data, w\<lparr>events := events w @
        [Urequests_post (GEMINI_ENDPOINT cfg @ ''?key='' @ GEMINI_API_KEY cfg)
           (ujson_dumps (gemini_payload prompt)) json_headers]\<rparr>)"
  by (simp add: request_gemini_response_def try_except_def read_response_def emit_def)

lemma generate_vegetable_suggestions_raise:
  "generate_vegetable_suggestions pf cfg (Inl e) lcd h st w =
     update_lcd lcd ''Failed to get advice'' 2
       (w\<lparr>events := events w @
          [Urequests_post (GEMINI_ENDPOINT cfg @ ''?key='' @ GEMINI_API_KEY cfg)
             (ujson_dumps (gemini_payload (advice_prompt pf h st))) json_headers,
           Print (''[ERROR] Failed to reach Gemini endpoint: '' @ str_exn pf e)]\<rparr>)"
  by (simp add: generate_vegetable_suggestions_def request_gemini_response_raise and_then_def)

lemma generate_vegetable_suggestions_response:
  "json_result r = Inr data \<Longrightarrow> close_result r = None \<Longrightarrow>
   generate_vegetable_suggestions pf cfg (Inr r) lcd h st w =
     (if truthy data then
        (case advice_text data of
           Inl e \<Rightarrow> (Inl e, w\<lparr>events := events w @
              [Urequests_post (GEMINI_ENDPOINT cfg @ ''?key='' @ GEMINI_API_KEY cfg)
                 (ujson_dumps (gemini_payload (advice_prompt pf h st))) json_headers]\<rparr>)
         | Inr advice \<Rightarrow> update_lcd lcd (st @ ''\<newline>'' @ advice) 3
             (w\<lparr>events := events w @
              [Urequests_post (GEMINI_ENDPOINT cfg @ ''?key='' @ GEMINI_API_KEY cfg)
                 (ujson_dumps (gemini_payload (advice_prompt pf h st))) json_headers]\<rparr>))
      else update_lcd lcd ''Failed to get advice'' 2
             (w\<lparr>events := events w @
              [Urequests_post (GEMINI_ENDPOINT cfg @ ''?key='' @ GEMINI_API_KEY cfg)
                 (ujson_dumps (gemini_payload (advice_prompt pf h st))) json_headers]\<rparr>))"
  by (simp add: generate_vegetable_suggestions_def request_gemini_response_response and_then_def
      split: sum.splits)

lemma advice_text_no_candidates:
  "advice_text (PDict (filter (\<lambda>kv. fst kv \<noteq> ''candidates'') kvs)) = Inl IndexError"
proof -
  have "map_of (filter (\<lambda>kv. fst kv \<noteq> ''candidates'') kvs) ''candidates'' = None"
    by (induction kvs) auto
  then show ?thesis
    by (simp add: advice_text_def bind_exn_def)
qed

lemma advice_text_empty_parts:
  "advice_text (PDict [(''candidates'', PList [PDict [(''content'', PDict [(''parts'', PList [])])]])])
     = Inl IndexError"
  by (simp add: advice_text_def bind_exn_def)

lemma store_humidity_data_raise:
  "store_humidity_data pf cfg lt (Inl e) h a w =
     (Inr (), w\<lparr>events := events w @
        [Urequests_post (DATA_INSERT_ENDPOINT cfg) (ujson_dumps (upload_params h (format_datetime lt) a))
           json_headers,
         Print (''[ERROR] Failed to reach endpoint '' @ DATA_INSERT_ENDPOINT cfg @ '': '' @ str_exn pf e)]\<rparr>)"
  by (simp add: store_humidity_data_def request_endpoint_post_raise and_then_def)

lemma store_humidity_data_response:
  "store_humidity_data pf cfg lt (Inr r) h a w =
     (Inr (), w\<lparr>events := events w @
        [Urequests_post (DATA_INSERT_ENDPOINT cfg) (ujson_dumps (upload_params h (format_datetime lt) a))
           json_headers]\<rparr>)"
  by (simp add: store_humidity_data_def request_endpoint_post_response and_then_def)

lemma process_humidity_try_measure_raises:
  "measure_result env = Some e \<Longrightarrow> process_humidity_try pf cfg env w = (Inl e, w)"
  by (simp add: process_humidity_try_def)

lemma process_humidity_try_null:
  "measure_result env = None \<Longrightarrow> humidity_result env = None \<Longrightarrow>
   process_humidity_try pf cfg env w = (Inr (), w)"
  by (simp add: process_humidity_try_def)

lemma process_humidity_try_value:
  "measure_result env = None \<Longrightarrow> humidity_result env = Some v \<Longrightarrow>
   process_humidity_try pf cfg env w =
     and_then
       (update_lcd (lcd_reading env)
          (''Humidity: '' @ format_2f pf v @ ''%\<newline>'' @ calculate_humidity_status cfg v) 3
          (w\<lparr>humidity_readings := humidity_readings w @ [v]\<rparr>))
       (\<lambda>_ w2. and_then
          (generate_vegetable_suggestions pf cfg (gemini_response env) (lcd_advice env)
             v (calculate_humidity_status cfg v) w2)
          (\<lambda>_ w3. store_humidity_data pf cfg (localtime_result env) (data_response env) v
             (calculate_average_humidity (w\<lparr>humidity_readings := humidity_readings w @ [v]\<rparr>)) w3))"
  by (simp add: process_humidity_try_def Let_def)

lemma process_humidity_null:
  "measure_result env = None \<Longrightarrow> humidity_result env = None \<Longrightarrow>
   process_humidity pf cfg env w = (Inr (), w)"
  by (simp add: process_humidity_def process_humidity_try_null try_except_def)



lemma process_humidity_advisory_transport_raises:
  assumes "measure_result env = None" "humidity_result env = Some v" "lcd_reading env = Lcd_ok"
    "gemini_response env = Inl e" "lcd_advice env = Lcd_ok"
  shows "process_humidity pf cfg env w =
     (Inr (), w\<lparr>humidity_readings := humidity_readings w @ [v],
        events := events w @
        [Lcd_clear,
         Lcd_putstr (''Humidity: '' @ format_2f pf v @ ''%\<newline>'' @ calculate_humidity_status cfg v),
         Sleep 3,
         Urequests_post (GEMINI_ENDPOINT cfg @ ''?key='' @ GEMINI_API_KEY cfg)
           (ujson_dumps (gemini_payload (advice_prompt pf v (calculate_humidity_status cfg v))))
           json_headers,
         Print (''[ERROR] Failed to reach Gemini endpoint: '' @ str_exn pf e),
         Lcd_clear, Lcd_putstr ''Failed to get advice'', Sleep 2,
         Urequests_post (DATA_INSERT_ENDPOINT cfg)
           (ujson_dumps (upload_params v (format_datetime (localtime_result env))
              (calculate_average_humidity (w\<lparr>humidity_readings := humidity_readings w @ [v]\<rparr>))))
           json_headers] @
        (case data_response env of
           Inl e' \<Rightarrow> [Print (''[ERROR] Failed to reach endpoint '' @ DATA_INSERT_ENDPOINT cfg @ '': '' @
                          str_exn pf e')]
         | Inr r \<Rightarrow> [])\<rparr>)"
  using assms
  by (cases "data_response env")
     (simp_all add: process_humidity_def process_humidity_try_value try_except_def and_then_def
        update_lcd_ok generate_vegetable_suggestions_raise store_humidity_data_raise
        store_humidity_data_response)


lemma check_sensor_status_on:
  "check_sensor_status pf cfg (Inr status_on) w =
     (Inr True, w\<lparr>events := events w @ [Urequests_get (SENSOR_STATUS_ENDPOINT cfg)]\<rparr>)"
  by (simp add: check_sensor_status_response [where data = "PDict [(''items'', PList [PDict [(''status'', PStr ''ON'')]])]"]
      status_on_def status_is_on_def bind_exn_def py_or_def)

lemma digit_char_is_digit: "d < 10 \<Longrightarrow> is_digit (digit_char d)"
proof -
  assume "d < 10"
  then have "d < length ''0123456789''" by simp
  then have "''0123456789'' ! d \<in> set ''0123456789''" by (rule nth_mem)
  then show ?thesis by (simp only: is_digit_def digit_char_def)
qed

lemma digits_all_digits: "list_all is_digit (digits n)"
proof (induction n rule: digits.induct)
  case (1 n)
  show ?case
  proof (cases "n < 10")
    case True
    then show ?thesis by (subst digits.simps) (simp add: digit_char_is_digit)
  next
    case False
    with 1 show ?thesis by (subst digits.simps) (simp add: digit_char_is_digit)
  qed
qed

lemma length_digits: "0 < k \<Longrightarrow> n < 10 ^ k \<Longrightarrow> length (digits n) \<le> k"
proof (induction k arbitrary: n)
  case 0
  then show ?case by simp
next
  case (Suc k)
  show ?case
  proof (cases "n < 10")
    case True
    then show ?thesis by (subst digits.simps) simp
  next
    case False
    then have "0 < k" using Suc.prems(2) by (cases k) auto
    moreover have "n div 10 < 10 ^ k" using Suc.prems(2) by (simp add: less_mult_imp_div_less mult.commute)
    ultimately have "length (digits (n div 10)) \<le> k" by (rule Suc.IH)
    with False show ?thesis by (subst digits.simps) simp
  qed
qed

lemma matches_append:
  "length p1 = length s1 \<Longrightarrow> matches (p1 @ p2) (s1 @ s2) = (matches p1 s1 \<and> matches p2 s2)"
  by (induction p1 s1 rule: matches.induct) auto

lemma matches_digits: "matches (replicate (length s) CHR ''d'') s = list_all is_digit s"
  by (induction s) auto

lemma format_0d_nonneg:
  assumes "0 < k" "0 \<le> n" "n < 10 ^ k"
  shows "length (format_0d k n) = k \<and> list_all is_digit (format_0d k n)"
proof -
  have "nat n < 10 ^ k" using assms by (simp add: nat_less_iff)
  then have len: "length (digits (nat n)) \<le> k" using assms(1) by (intro length_digits)
  have "is_digit CHR ''0''" by (simp add: is_digit_def)
  then show ?thesis using assms(2) len digits_all_digits [of "nat n"]
    by (auto simp: format_0d_def zfill_def list_all_iff)
qed

lemma matches_format_0d:
  assumes "0 < k" "0 \<le> n" "n < 10 ^ k"
  shows "matches (replicate k CHR ''d'') (format_0d k n)"
  using format_0d_nonneg [OF assms] matches_digits [of "format_0d k n"] by simp

lemma format_datetime_shape:
  assumes "localtime_in_range lt"
  shows "is_datetime_format (format_datetime lt)"
proof -
  obtain year month mday hour minute second weekday yearday
    where lt: "lt = (year, month, mday, hour, minute, second, weekday, yearday)"
    by (cases lt) auto
  have y: "matches (replicate 4 CHR ''d'') (format_0d 4 year)" "length (format_0d 4 year) = 4"
    using assms unfolding lt localtime_in_range_def
    by (auto intro!: matches_format_0d simp: format_0d_nonneg)
  have f2: "matches (replicate 2 CHR ''d'') (format_0d 2 x) \<and> length (format_0d 2 x) = 2"
    if "0 \<le> x" "x \<le> 59" for x
    using that by (auto intro!: matches_format_0d simp: format_0d_nonneg)
  have mo: "matches (replicate 2 CHR ''d'') (format_0d 2 month) \<and> length (format_0d 2 month) = 2"
   and md: "matches (replicate 2 CHR ''d'') (format_0d 2 mday) \<and> length (format_0d 2 mday) = 2"
   and ho: "matches (replicate 2 CHR ''d'') (format_0d 2 hour) \<and> length (format_0d 2 hour) = 2"
   and mi: "matches (replicate 2 CHR ''d'') (format_0d 2 minute) \<and> length (format_0d 2 minute) = 2"
   and se: "matches (replicate 2 CHR ''d'') (format_0d 2 second) \<and> length (format_0d 2 second) = 2"
    using assms unfolding lt localtime_in_range_def by (auto intro!: f2)
  have pat: "''dddd-dd-dd dd:dd:dd'' =
      replicate 4 CHR ''d'' @ ''-'' @ replicate 2 CHR ''d'' @ ''-'' @ replicate 2 CHR ''d'' @ '' '' @
      replicate 2 CHR ''d'' @ '':'' @ replicate 2 CHR ''d'' @ '':'' @ replicate 2 CHR ''d''"
    by (simp add: numeral_eq_Suc)
  show ?thesis
    unfolding is_datetime_format_def format_datetime_def lt prod.case pat
    using y mo md ho mi se
    by (simp add: matches_append)
qed

lemma format_datetime_example:
  "format_datetime (2024, 5, 17, 9, 3, 7, 4, 138) = ''2024-05-17 09:03:07''"
  by code_simp

lemma grows_frame: "frame w w' \<Longrightarrow> grows 0 w w'"
  by (simp add: grows_def frame_def)

lemma grows_trans: "grows a w w1 \<Longrightarrow> grows b w1 w2 \<Longrightarrow> grows (a + b) w w2"
  by (auto simp: grows_def intro: prefix_order.trans)

lemma grows_mono: "grows a w w' \<Longrightarrow> a \<le> b \<Longrightarrow> grows b w w'"
  by (simp add: grows_def)

lemma frame_handler:
  "frame w (snd (update_lcd out ''Sensor error'' 2 (log_msg message level w)))"
  by (rule frame_trans [OF frame_log_msg frame_update_lcd])

lemma frame_process_humidity_tail:
  "frame w2 (snd (and_then
       (generate_vegetable_suggestions pf cfg gout lout v st w2)
       (\<lambda>_ w3. store_humidity_data pf cfg lt dout v a w3)))"
  by (rule frame_and_then) (simp_all add: frame_generate_vegetable_suggestions frame_store_humidity_data)

lemma frame_process_humidity_try_value:
  assumes "measure_result env = None" "humidity_result env = Some v"
  shows "frame (w\<lparr>humidity_readings := humidity_readings w @ [v]\<rparr>) (snd (process_humidity_try pf cfg env w))"
  unfolding process_humidity_try_value [OF assms]
  by (rule frame_and_then) (simp_all add: frame_update_lcd frame_process_humidity_tail)

lemma frame_process_humidity_value:
  assumes "measure_result env = None" "humidity_result env = Some v"
  shows "frame (w\<lparr>humidity_readings := humidity_readings w @ [v]\<rparr>) (snd (process_humidity pf cfg env w))"
  unfolding process_humidity_def
  by (rule frame_try_except) (simp_all add: frame_process_humidity_try_value [OF assms] frame_handler)

lemma frame_process_humidity_measure_raises:
  assumes "measure_result env = Some e"
  shows "frame w (snd (process_humidity pf cfg env w))"
  unfolding process_humidity_def
  by (rule frame_try_except)
     (simp_all add: process_humidity_try_measure_raises [OF assms] frame_refl frame_handler)

lemma process_humidity_history:
  "humidity_readings (snd (process_humidity pf cfg env w)) =
     humidity_readings w @
       (case measure_result env of
          Some e \<Rightarrow> []
        | None \<Rightarrow> (case humidity_result env of None \<Rightarrow> [] | Some v \<Rightarrow> [v]))"
proof (cases "measure_result env")
  case (Some e)
  then show ?thesis using frame_process_humidity_measure_raises [OF Some, of w pf cfg]
    by (simp add: frame_def)
next
  case None
  show ?thesis
  proof (cases "humidity_result env")
    case hn: None
    then show ?thesis using None by (simp add: process_humidity_null)
  next
    case (Some v)
    then show ?thesis using None frame_process_humidity_value [OF None Some, of w pf cfg]
      by (simp add: frame_def)
  qed
qed

lemma grows_process_humidity: "grows 1 w (snd (process_humidity pf cfg env w))"
  by (simp add: grows_def process_humidity_history split: option.splits)

lemma grows_main_loop_body: "grows 1 w (snd (main_loop_body pf cfg env w))"
proof (cases "check_sensor_status pf cfg (status_response env) w")
  case (Pair r w1)
  have f1: "grows 0 w w1"
    using frame_check_sensor_status [of w pf cfg "status_response env"] Pair
    by (simp add: grows_frame)
  show ?thesis
  proof (cases r)
    case (Inl e)
    with Pair f1 show ?thesis
      using grows_mono [of 0 w w1 1] by (simp add: main_loop_body_def and_then_def)
  next
    case (Inr enabled)
    define step where "step = (if enabled then process_humidity pf cfg env w1
                               else update_lcd (lcd_off env) ''Sensor is OFF'' 2 w1)"
    obtain r2 w2 where s2: "step = (r2, w2)" by (cases step)
    have "grows 1 w1 (snd step)"
      unfolding step_def using grows_process_humidity [of w1 pf cfg env]
        grows_mono [OF grows_frame [OF frame_update_lcd [of w1 "lcd_off env" "''Sensor is OFF''" 2]], of 1]
      by simp
    with s2 f1 have g2: "grows 1 w w2"
      using grows_trans [of 0 w w1 1 w2] by simp
    show ?thesis
    proof (cases r2)
      case (Inl e)
      with Pair Inr s2 g2 show ?thesis
        by (simp add: main_loop_body_def and_then_def step_def [symmetric])
    next
      case r2: (Inr u)
      obtain r3 w3 where s3: "update_lcd (lcd_working env) ''Sensor working...'' 2 w2 = (r3, w3)"
        by (cases "update_lcd (lcd_working env) ''Sensor working...'' 2 w2")
      have "frame w2 w3"
        using frame_update_lcd [of w2 "lcd_working env" "''Sensor working...''" 2] s3 by simp
      then have "frame w2 (emit (Sleep 2) w3)"
        by (rule frame_trans) (rule frame_emit)
      with \<open>frame w2 w3\<close> g2 have "grows 1 w w3" "grows 1 w (emit (Sleep 2) w3)"
        using grows_trans [of 1 w w2 0] by (auto dest: grows_frame)
      with Pair Inr s2 r2 s3 show ?thesis
        by (cases r3) (simp_all add: main_loop_body_def and_then_def step_def [symmetric])
    qed
  qed
qed

lemma grows_main_loop: "grows (length envs) w (snd (main_loop pf cfg envs w))"
proof (induction envs arbitrary: w)
  case Nil
  show ?case by (simp add: grows_def)
next
  case (Cons env envs)
  obtain r w1 where b: "main_loop_body pf cfg env w = (r, w1)"
    by (cases "main_loop_body pf cfg env w")
  have g1: "grows 1 w w1" using grows_main_loop_body [of w pf cfg env] b by simp
  show ?case
  proof (cases r)
    case (Inl e)
    with b g1 show ?thesis by (simp add: and_then_def grows_mono)
  next
    case (Inr u)
    with b g1 Cons.IH [of w1] show ?thesis
      using grows_trans [of 1 w w1 "length envs"] by (simp add: and_then_def)
  qed
qed

lemma frame_wait_connected: "frame w (snd (wait_connected isconnected ip n k w))"
proof (induction n arbitrary: k w)
  case 0
  show ?case by (simp add: frame_emit)
next
  case (Suc n)
  show ?case
    using Suc [of "emit (Sleep 1) w" "Suc k"]
    by (auto intro: frame_trans [OF frame_emit] frame_trans [OF frame_emit frame_emit])
qed

lemma frame_connect_wifi: "frame w (snd (connect_wifi isconnected ip ssid password w))"
proof -
  have a: "frame w (emit (Wlan_active True) w)"
    by (rule frame_emit)
  have b: "frame (emit (Wlan_active True) w)
             (snd (wait_connected isconnected ip 10 1
                (emit (Wlan_connect ssid password)
                   (emit (Print ''Connecting to WiFi...'') (emit (Wlan_active True) w)))))"
    by (rule frame_trans [OF frame_emit frame_trans [OF frame_emit frame_wait_connected]])
  show ?thesis
    unfolding connect_wifi_def Let_def
    using frame_trans [OF a b] frame_trans [OF a frame_emit]
    by simp
qed

lemma grows_main:
  "grows (length envs) w (snd (main pf cfg lcd_banner isconnected ip lcd_fail envs w))"
proof (cases "update_lcd lcd_banner ''Veg Sanitization\<newline>Initializing...'' 2 w")
  case (Pair r w1)
  have f1: "frame w w1"
    using frame_update_lcd [of w lcd_banner "''Veg Sanitization\<newline>Initializing...''" 2] Pair
    by simp
  show ?thesis
  proof (cases r)
    case (Inl e)
    with Pair f1 show ?thesis
      using grows_mono [OF grows_frame [OF f1], of "length envs"] by (simp add: main_def and_then_def)
  next
    case (Inr u)
    obtain c w2 where cw: "connect_wifi isconnected ip (WIFI_SSID cfg) (WIFI_PASSWORD cfg) w1 = (c, w2)"
      by (cases "connect_wifi isconnected ip (WIFI_SSID cfg) (WIFI_PASSWORD cfg) w1")
    have f2: "frame w w2"
      using frame_trans [OF f1 frame_connect_wifi [of w1 isconnected ip "WIFI_SSID cfg" "WIFI_PASSWORD cfg"]] cw
      by simp
    show ?thesis
    proof (cases c)
      case True
      have "grows (0 + length envs) w (snd (main_loop pf cfg envs w2))"
        by (rule grows_trans [OF grows_frame [OF f2] grows_main_loop])
      with Pair Inr cw True show ?thesis by (simp add: main_def and_then_def)
    next
      case False
      have "frame w (snd (update_lcd lcd_fail ''WiFi Fail!\<newline>Check config'' 2 w2))"
        by (rule frame_trans [OF f2 frame_update_lcd])
      then have "grows (length envs) w (snd (update_lcd lcd_fail ''WiFi Fail!\<newline>Check config'' 2 w2))"
        using grows_mono [OF grows_frame, of _ _ "length envs"] by simp
      with Pair Inr cw False show ?thesis by (simp add: main_def and_then_def)
    qed
  qed
qed

lemma process_humidity_try_shown:
  assumes "measure_result env = None" "humidity_result env = Some v" "lcd_reading env = Lcd_ok"
  shows "process_humidity_try pf cfg env w =
     and_then
       (generate_vegetable_suggestions pf cfg (gemini_response env) (lcd_advice env)
          v (calculate_humidity_status cfg v) (reading_shown pf cfg v w))
       (\<lambda>_ w3. store_humidity_data pf cfg (localtime_result env) (data_response env) v
          (calculate_average_humidity (w\<lparr>humidity_readings := humidity_readings w @ [v]\<rparr>)) w3)"
  using assms
  by (simp add: process_humidity_try_value update_lcd_ok and_then_def reading_shown_def)

lemma frame_process_humidity_shown:
  assumes "measure_result env = None" "humidity_result env = Some v" "lcd_reading env = Lcd_ok"
  shows "frame (reading_shown pf cfg v w) (snd (process_humidity pf cfg env w))"
  unfolding process_humidity_def
  by (rule frame_try_except)
     (simp_all add: process_humidity_try_shown [OF assms] frame_process_humidity_tail frame_handler)

lemma average_after_append:
  "calculate_average_humidity (w\<lparr>humidity_readings := humidity_readings w @ [v]\<rparr>) =
     sum_list (humidity_readings w @ [v]) / real (length (humidity_readings w @ [v]))"
  by (simp add: calculate_average_humidity_def py_sum_sum_list)

lemma process_humidity_upload:
  assumes "measure_result env = None" "humidity_result env = Some v" "lcd_reading env = Lcd_ok"
    and "generate_vegetable_suggestions pf cfg (gemini_response env) (lcd_advice env)
           v (calculate_humidity_status cfg v) (reading_shown pf cfg v w) = (Inr (), w3)"
  shows "process_humidity pf cfg env w =
     (Inr (), w3\<lparr>events := events w3 @
        Urequests_post (DATA_INSERT_ENDPOINT cfg)
          (ujson_dumps (PDict [(''humidity'', PNum v),
             (''datetime'', PStr (format_datetime (localtime_result env))),
             (''avg_humidity'',
                PNum (sum_list (humidity_readings w @ [v]) / real (length (humidity_readings w @ [v]))))]))
          [(''Content-Type'', ''application/json'')] #
        (case data_response env of
           Inl e \<Rightarrow> [Print (''[ERROR] Failed to reach endpoint '' @ DATA_INSERT_ENDPOINT cfg @ '': '' @
                         str_exn pf e)]
         | Inr r \<Rightarrow> [])\<rparr>)"
proof (cases "data_response env")
  case (Inl e)
  then show ?thesis
    unfolding process_humidity_def process_humidity_try_shown [OF assms(1-3)] assms(4)
      average_after_append
    by (simp add: and_then_def try_except_def store_humidity_data_raise upload_params_def
        json_headers_def)
next
  case (Inr r)
  then show ?thesis
    unfolding process_humidity_def process_humidity_try_shown [OF assms(1-3)] assms(4)
      average_after_append
    by (simp add: and_then_def try_except_def store_humidity_data_response upload_params_def
        json_headers_def)
qed

lemma generate_vegetable_suggestions_advice_ok:
  "generate_vegetable_suggestions pf cfg (Inr advice_ok) Lcd_ok h st w =
     (Inr (), w\<lparr>events := events w @
        [Urequests_post (GEMINI_ENDPOINT cfg @ ''?key='' @ GEMINI_API_KEY cfg)
           (ujson_dumps (gemini_payload (advice_prompt pf h st))) json_headers,
         Lcd_clear, Lcd_putstr (st @ ''\<newline>Keep produce chilled...''), Sleep 3]\<rparr>)"
  by (simp add: generate_vegetable_suggestions_response
        [where data = "PDict [(''candidates'', PList [PDict [(''content'',
                    PDict [(''parts'', PList [PDict [(''text'', PStr ''Keep produce  chilled'')]])])]])]"]
      advice_ok_def advice_text_def bind_exn_def update_lcd_ok isspace_def)

lemma localtime_in_range_example: "localtime_in_range (2024, 5, 17, 9, 3, 7, 4, 138)"
  by (simp add: localtime_in_range_def)


lemma process_humidity_display_fails:
  assumes "measure_result env = None" "humidity_result env = Some v" "lcd_reading env = Clear_raises e"
  shows "filter is_post (events (snd (process_humidity pf cfg env w))) = filter is_post (events w)"
  using assms
  by (cases "lcd_error env")
     (simp_all add: process_humidity_def process_humidity_try_value update_lcd_cases and_then_def
        try_except_def log_msg_error)

lemma request_endpoint_failure:
  assumes "method = ''get'' \<or> method = ''post''"
    and "out = Inl e \<or> (method = ''get'' \<and> (\<exists>r. out = Inr r \<and> json_result r = Inl e))"
  shows "request_endpoint pf out url params method w =
           (Inr PNone,
            w\<lparr>events := events w @
               [if method = ''get'' then Urequests_get url
                else Urequests_post url (ujson_dumps params) json_headers,
                Print (''[ERROR] Failed to reach endpoint '' @ url @ '': '' @ str_exn pf e)]\<rparr>)
       \<and> sublist url (''[ERROR] Failed to reach endpoint '' @ url @ '': '' @ str_exn pf e)
       \<and> (\<exists>v. fst (request_endpoint pf out' url' params' method' w') = Inr v)"
proof -
  have "sublist url (''[ERROR] Failed to reach endpoint '' @ url @ '': '' @ str_exn pf e)"
    by (rule sublist_appendI)
  moreover have "\<exists>v. fst (request_endpoint pf out' url' params' method' w') = Inr v"
    by (rule request_endpoint_returns)
  moreover have "request_endpoint pf out url params method w =
           (Inr PNone,
            w\<lparr>events := events w @
               [if method = ''get'' then Urequests_get url
                else Urequests_post url (ujson_dumps params) json_headers,
                Print (''[ERROR] Failed to reach endpoint '' @ url @ '': '' @ str_exn pf e)]\<rparr>)"
  proof -
    consider (get_raise) "method = ''get''" "out = Inl e"
      | (post_raise) "method = ''post''" "out = Inl e"
      | (get_parse) r where "method = ''get''" "out = Inr r" "json_result r = Inl e"
      using assms by blast
    then show ?thesis
    proof cases
      case get_raise
      then show ?thesis by (simp add: request_endpoint_get_raise)
    next
      case post_raise
      then show ?thesis by (simp add: request_endpoint_post_raise)
    next
      case get_parse
      then show ?thesis by (simp add: request_endpoint_get_response)
    qed
  qed
  ultimately show ?thesis by blast
qed

lemma digit_value_digit_char_table: "\<forall>d\<in>set [0..<10]. digit_value (digit_char d) = d"
  by code_simp

lemma digit_value_digit_char: "d < 10 \<Longrightarrow> digit_value (digit_char d) = d"
  using digit_value_digit_char_table by simp

lemma read_decimal_snoc: "read_decimal (s @ [c]) = 10 * read_decimal s + digit_value c"
  by (simp add: read_decimal_def)

lemma read_decimal_digits: "read_decimal (digits n) = n"
proof (induction n rule: digits.induct)
  case (1 n)
  show ?case
  proof (cases "n < 10")
    case True
    then show ?thesis
      by (subst digits.simps) (simp add: read_decimal_def digit_value_digit_char)
  next
    case False
    with 1 show ?thesis
      by (subst digits.simps) (simp add: read_decimal_snoc digit_value_digit_char)
  qed
qed

lemma read_decimal_zeros:
  "foldl (\<lambda>acc c. 10 * acc + digit_value c) 0 (replicate m CHR ''0'') = 0"
  by (induction m) (simp_all add: digit_value_def)

lemma read_decimal_format_0d: "0 \<le> n \<Longrightarrow> read_decimal (format_0d k n) = nat n"
  using read_decimal_digits [of "nat n"]
  by (simp add: format_0d_def zfill_def read_decimal_def read_decimal_zeros)

lemma datetime_fields_format_datetime:
  assumes "localtime_in_range lt"
  shows "datetime_fields (format_datetime lt) = clock_fields lt"
proof -
  obtain year month mday hour minute second weekday yearday
    where lt: "lt = (year, month, mday, hour, minute, second, weekday, yearday)"
    by (cases lt) auto
  have r: "0 \<le> year" "year < 10 ^ 4" "0 \<le> month" "month < 10 ^ 2" "0 \<le> mday" "mday < 10 ^ 2"
    "0 \<le> hour" "hour < 10 ^ 2" "0 \<le> minute" "minute < 10 ^ 2" "0 \<le> second" "second < 10 ^ 2"
    using assms unfolding lt localtime_in_range_def by simp_all
  have len: "length (format_0d 4 year) = 4" "length (format_0d 2 month) = 2"
    "length (format_0d 2 mday) = 2" "length (format_0d 2 hour) = 2"
    "length (format_0d 2 minute) = 2" "length (format_0d 2 second) = 2"
    using r by (simp_all add: format_0d_nonneg)
  show ?thesis
    unfolding datetime_fields_def clock_fields_def format_datetime_def lt prod.case
    using r by (simp add: len read_decimal_format_0d)
qed

lemma request_gemini_response_parse_raises:
  "json_result r = Inl e \<Longrightarrow>
   request_gemini_response pf cfg (Inr r) prompt w =
     (Inr PNone, w\<lparr>events := events w @
        [Urequests_post (GEMINI_ENDPOINT cfg @ ''?key='' @ GEMINI_API_KEY cfg)
           (ujson_dumps (gemini_payload prompt)) json_headers,
         Print (''[ERROR] Failed to reach Gemini endpoint: '' @ str_exn pf e)]\<rparr>)"
  by (simp add: request_gemini_response_def try_except_def read_response_def log_msg_error emit_def)

lemma request_gemini_response_returns:
  "\<exists>v. fst (request_gemini_response pf cfg out prompt w) = Inr v"
  by (simp add: request_gemini_response_def try_except_def Let_def split: prod.splits sum.splits)

lemma request_gemini_response_failure:
  assumes "out = Inl e \<or> (\<exists>r. out = Inr r \<and> json_result r = Inl e)"
  shows "request_gemini_response pf cfg out prompt w =
     (Inr PNone, w\<lparr>events := events w @
        [Urequests_post (GEMINI_ENDPOINT cfg @ ''?key='' @ GEMINI_API_KEY cfg)
           (ujson_dumps (gemini_payload prompt)) json_headers,
         Print (''[ERROR] Failed to reach Gemini endpoint: '' @ str_exn pf e)]\<rparr>)"
  using assms request_gemini_response_raise [of pf cfg e prompt w]
    request_gemini_response_parse_raises [of _ e pf cfg prompt w]
  by blast



lemma process_humidity_reading_clear_raises:
  assumes "measure_result env = None" "humidity_result env = Some v"
    "lcd_reading env = Clear_raises e" "lcd_error env = Lcd_ok"
  shows "process_humidity pf cfg env w =
     (Inr (), w\<lparr>humidity_readings := humidity_readings w @ [v],
        events := events w @
          [Print (''[ERROR] Sensor error: '' @ str_exn pf e),
           Lcd_clear, Lcd_putstr ''Sensor error'', Sleep 2]\<rparr>)"
  using assms
  by (simp add: process_humidity_def process_humidity_try_value update_lcd_cases and_then_def
      try_except_def log_msg_error)


lemma process_humidity_advisory_raises:
  assumes "measure_result env = None" "humidity_result env = Some v" "lcd_reading env = Lcd_ok"
    and "generate_vegetable_suggestions pf cfg (gemini_response env) (lcd_advice env)
           v (calculate_humidity_status cfg v) (reading_shown pf cfg v w) = (Inl e, w3)"
    and "lcd_error env = Lcd_ok"
  shows "process_humidity pf cfg env w =
     (Inr (), w3\<lparr>events := events w3 @
        [Print (''[ERROR] Sensor error: '' @ str_exn pf e),
         Lcd_clear, Lcd_putstr ''Sensor error'', Sleep 2]\<rparr>)"
  unfolding process_humidity_def process_humidity_try_shown [OF assms(1-3)] assms(4)
  using assms(5) by (simp add: and_then_def try_except_def update_lcd_ok log_msg_error)

lemma generate_vegetable_suggestions_display_raises:
  assumes "json_result r = Inr data" "close_result r = None" "truthy data"
    "advice_text data = Inr advice"
  shows "generate_vegetable_suggestions pf cfg (Inr r) (Clear_raises e) h st w =
     (Inl e, w\<lparr>events := events w @
        [Urequests_post (GEMINI_ENDPOINT cfg @ ''?key='' @ GEMINI_API_KEY cfg)
           (ujson_dumps (gemini_payload (advice_prompt pf h st))) json_headers]\<rparr>)"
  using assms(3,4)
  by (simp add: generate_vegetable_suggestions_response [OF assms(1,2)] update_lcd_clear_raises)

lemma process_humidity_advice_display_raises:
  assumes "measure_result env = None" "humidity_result env = Some v" "lcd_reading env = Lcd_ok"
    "gemini_response env = Inr r" "json_result r = Inr data" "close_result r = None" "truthy data"
    "advice_text data = Inr advice" "lcd_advice env = Clear_raises e" "lcd_error env = Lcd_ok"
  shows "process_humidity pf cfg env w =
     (Inr (), w\<lparr>humidity_readings := humidity_readings w @ [v],
        events := events w @
        [Lcd_clear,
         Lcd_putstr (''Humidity: '' @ format_2f pf v @ ''%\<newline>'' @ calculate_humidity_status cfg v),
         Sleep 3,
         Urequests_post (GEMINI_ENDPOINT cfg @ ''?key='' @ GEMINI_API_KEY cfg)
           (ujson_dumps (gemini_payload (advice_prompt pf v (calculate_humidity_status cfg v))))
           json_headers,
         Print (''[ERROR] Sensor error: '' @ str_exn pf e),
         Lcd_clear, Lcd_putstr ''Sensor error'', Sleep 2]\<rparr>)"
proof -
  have "generate_vegetable_suggestions pf cfg (gemini_response env) (lcd_advice env)
           v (calculate_humidity_status cfg v) (reading_shown pf cfg v w) =
        (Inl e, (reading_shown pf cfg v w)\<lparr>events := events (reading_shown pf cfg v w) @
          [Urequests_post (GEMINI_ENDPOINT cfg @ ''?key='' @ GEMINI_API_KEY cfg)
             (ujson_dumps (gemini_payload (advice_prompt pf v (calculate_humidity_status cfg v))))
             json_headers]\<rparr>)"
    unfolding assms(4) assms(9)
    by (rule generate_vegetable_suggestions_display_raises [OF assms(5-8)])
  from process_humidity_advisory_raises [OF assms(1-3) this assms(10)]
  show ?thesis by (simp add: reading_shown_def)
qed

lemma advice_text_advice_ok:
  "advice_text (PDict [(''candidates'', PList [PDict [(''content'',
      PDict [(''parts'', PList [PDict [(''text'', PStr ''Keep produce  chilled'')]])])]])]) =
   Inr ''Keep produce chilled...''"
  by (simp add: advice_text_def bind_exn_def isspace_def)

lemma status_CONFIG_65: "calculate_humidity_status CONFIG 65 = ''Optimal''"
  by (simp add: calculate_humidity_status_def CONFIG_def)

lemma process_humidity_reading_display_raises_example:
  "process_humidity pf0 CONFIG (env_ok\<lparr>lcd_reading := Clear_raises OSError\<rparr>) w0 =
     (Inr (), \<lparr>humidity_readings = [65],
        events = [Print ''[ERROR] Sensor error: error'',
                  Lcd_clear, Lcd_putstr ''Sensor error'', Sleep 2]\<rparr>)"
  using process_humidity_reading_clear_raises
    [of "env_ok\<lparr>lcd_reading := Clear_raises OSError\<rparr>" 65 OSError pf0 CONFIG w0]
  by (simp add: env_ok_def w0_def pf0_def)

lemma process_humidity_advice_display_raises_example:
  "process_humidity pf0 CONFIG (env_ok\<lparr>lcd_advice := Clear_raises OSError\<rparr>) w0 =
     (Inr (), \<lparr>humidity_readings = [65],
        events =
          [Lcd_clear, Lcd_putstr ''Humidity: 65.00%\<newline>Optimal'', Sleep 3,
           Urequests_post (GEMINI_ENDPOINT CONFIG @ ''?key='' @ GEMINI_API_KEY CONFIG)
             (ujson_dumps (gemini_payload (advice_prompt pf0 65 ''Optimal''))) json_headers,
           Print ''[ERROR] Sensor error: error'',
           Lcd_clear, Lcd_putstr ''Sensor error'', Sleep 2]\<rparr>)"
  using process_humidity_advice_display_raises
    [of "env_ok\<lparr>lcd_advice := Clear_raises OSError\<rparr>" 65 advice_ok
        "PDict [(''candidates'', PList [PDict [(''content'',
           PDict [(''parts'', PList [PDict [(''text'', PStr ''Keep produce  chilled'')]])])]])]"
        "''Keep produce chilled...''" OSError pf0 CONFIG w0]
    advice_text_advice_ok
  by (simp add: env_ok_def advice_ok_def w0_def pf0_def status_CONFIG_65)



lemma process_humidity_reading_display_fails:
  assumes "measure_result env = None" "humidity_result env = Some v" "lcd_reading env \<noteq> Lcd_ok"
  shows "filter is_post (events (snd (process_humidity pf cfg env w))) = filter is_post (events w)"
proof (cases "lcd_reading env")
  case Lcd_ok
  with assms(3) show ?thesis by simp
next
  case (Clear_raises e)
  with assms(1,2) show ?thesis
    by (cases "lcd_error env")
       (simp_all add: process_humidity_def process_humidity_try_value update_lcd_cases and_then_def
          try_except_def log_msg_error)
next
  case (Putstr_raises e)
  with assms(1,2) show ?thesis
    by (cases "lcd_error env")
       (simp_all add: process_humidity_def process_humidity_try_value update_lcd_cases and_then_def
          try_except_def log_msg_error)
qed


section \<open>The classifier\<close>

text \<open>
  Claim C2. For every humidity value \<open>v\<close> and thresholds with low \<open>\<le>\<close> high, the classifier
  returns the label for too dry exactly when \<open>v\<close> is below the low threshold, the label for
  too humid exactly when \<open>v\<close> is above the high threshold, and the label Optimal exactly in
  between, the two thresholds themselves included.
\<close>

theorem calculate_humidity_status_spec:
  assumes "IDEAL_HUMIDITY_LOW cfg \<le> IDEAL_HUMIDITY_HIGH cfg"
  shows "(calculate_humidity_status cfg v = ''Too Dry!'' \<longleftrightarrow> v < IDEAL_HUMIDITY_LOW cfg)
       \<and> (calculate_humidity_status cfg v = ''Too Humid!'' \<longleftrightarrow> v > IDEAL_HUMIDITY_HIGH cfg)
       \<and> (calculate_humidity_status cfg v = ''Optimal'' \<longleftrightarrow>
            IDEAL_HUMIDITY_LOW cfg \<le> v \<and> v \<le> IDEAL_HUMIDITY_HIGH cfg)
       \<and> calculate_humidity_status cfg (IDEAL_HUMIDITY_LOW cfg) = ''Optimal''
       \<and> calculate_humidity_status cfg (IDEAL_HUMIDITY_HIGH cfg) = ''Optimal''"
  using assms by (auto simp: calculate_humidity_status_def)

theorem calculate_humidity_status_spec_witness:
  "IDEAL_HUMIDITY_LOW CONFIG \<le> IDEAL_HUMIDITY_HIGH CONFIG
   \<and> calculate_humidity_status CONFIG 59.9 = ''Too Dry!''
   \<and> calculate_humidity_status CONFIG 60 = ''Optimal''
   \<and> calculate_humidity_status CONFIG 75 = ''Optimal''
   \<and> calculate_humidity_status CONFIG 75.1 = ''Too Humid!''"
proof -
  have le: "IDEAL_HUMIDITY_LOW CONFIG \<le> IDEAL_HUMIDITY_HIGH CONFIG"
    by (simp add: CONFIG_def)
  have lo: "IDEAL_HUMIDITY_LOW CONFIG = 60" and hi: "IDEAL_HUMIDITY_HIGH CONFIG = 75"
    by (simp_all add: CONFIG_def)
  from calculate_humidity_status_spec [OF le, of "59.9"]
  have dry: "calculate_humidity_status CONFIG 59.9 = ''Too Dry!''"
    by (simp add: lo)
  from calculate_humidity_status_spec [OF le, of "75.1"]
  have humid: "calculate_humidity_status CONFIG 75.1 = ''Too Humid!''"
    by (simp add: hi)
  from calculate_humidity_status_spec [OF le, of 60]
  have "calculate_humidity_status CONFIG 60 = ''Optimal''"
    by (simp add: lo)
  moreover from calculate_humidity_status_spec [OF le, of 75]
  have "calculate_humidity_status CONFIG 75 = ''Optimal''"
    by (simp add: hi)
  ultimately show ?thesis using le dry humid by simp
qed

section \<open>The running average\<close>

text \<open>
  Claim C3. The running average is 0 on an empty reading history; on every non-empty history
  it is the arithmetic mean of the recorded values (their sum divided by their number); on the
  history 50, 60, 70 it is 60.
\<close>

theorem calculate_average_humidity_spec:
  "calculate_average_humidity (w\<lparr>humidity_readings := []\<rparr>) = 0
   \<and> (rs \<noteq> [] \<longrightarrow>
        calculate_average_humidity (w\<lparr>humidity_readings := rs\<rparr>) = sum_list rs / real (length rs))
   \<and> calculate_average_humidity (w\<lparr>humidity_readings := [50, 60, 70]\<rparr>) = 60"
  by (simp add: calculate_average_humidity_def py_sum_sum_list)

theorem calculate_average_humidity_spec_witness:
  "calculate_average_humidity (w0\<lparr>humidity_readings := []\<rparr>) = 0
   \<and> calculate_average_humidity (w0\<lparr>humidity_readings := [40, 50]\<rparr>) = 45
   \<and> calculate_average_humidity (w0\<lparr>humidity_readings := [50, 60, 70]\<rparr>) = 60"
  using calculate_average_humidity_spec [of w0 "[40, 50]"] by simp

section \<open>The remote-call primitive\<close>

text \<open>
  Claim C7 as stated fails for the advisory call: when its transport raises,
  \<^verbatim>\<open>request_gemini_response\<close> returns None and logs one error line, but the line names the
  Gemini endpoint and does not contain the URL that failed.
\<close>

theorem request_gemini_response_log_without_url:
  "request_gemini_response pf0 CONFIG (Inl OSError) ''advice?'' w0 =
     (Inr PNone, \<lparr>humidity_readings = [],
        events = [Urequests_post (GEMINI_ENDPOINT CONFIG @ ''?key='' @ GEMINI_API_KEY CONFIG)
                    (ujson_dumps (gemini_payload ''advice?'')) json_headers,
                  Print ''[ERROR] Failed to reach Gemini endpoint: error'']\<rparr>)
   \<and> \<not> sublist (GEMINI_ENDPOINT CONFIG @ ''?key='' @ GEMINI_API_KEY CONFIG)
         ''[ERROR] Failed to reach Gemini endpoint: error''"
proof -
  have "\<not> length (GEMINI_ENDPOINT CONFIG @ ''?key='' @ GEMINI_API_KEY CONFIG)
          \<le> length ''[ERROR] Failed to reach Gemini endpoint: error''"
    by (simp add: CONFIG_def)
  then have "\<not> sublist (GEMINI_ENDPOINT CONFIG @ ''?key='' @ GEMINI_API_KEY CONFIG)
         ''[ERROR] Failed to reach Gemini endpoint: error''"
    using sublist_length_le by blast
  then show ?thesis
    by (simp add: request_gemini_response_raise pf0_def w0_def)
qed

text \<open>
  Claim C7, amended. Whenever a GET or POST call of \<^verbatim>\<open>request_endpoint\<close> meets a
  transport that raises, or a GET meets a response body that fails to parse, the call returns
  None and adds to the trace the request and exactly one error line, which contains the URL.
  Whenever the advisory POST of \<^verbatim>\<open>request_gemini_response\<close> meets a transport that raises
  or a body that fails to parse, it returns None and adds the request and exactly one error line,
  which names the Gemini endpoint. Neither function ever raises to its caller.
\<close>

theorem remote_call_failure:
  "((meth = ''get'' \<or> meth = ''post'') \<and>
    (out = Inl e \<or> (meth = ''get'' \<and> (\<exists>r. out = Inr r \<and> json_result r = Inl e))) \<longrightarrow>
      request_endpoint pf out url params meth w =
        (Inr PNone,
         w\<lparr>events := events w @
            [if meth = ''get'' then Urequests_get url
             else Urequests_post url (ujson_dumps params) json_headers,
             Print (''[ERROR] Failed to reach endpoint '' @ url @ '': '' @ str_exn pf e)]\<rparr>)
      \<and> sublist url (''[ERROR] Failed to reach endpoint '' @ url @ '': '' @ str_exn pf e))
   \<and> (\<exists>v. fst (request_endpoint pf out' url' params' meth' w') = Inr v)
   \<and> (gout = Inl e \<or> (\<exists>r. gout = Inr r \<and> json_result r = Inl e) \<longrightarrow>
        request_gemini_response pf cfg gout prompt w =
          (Inr PNone, w\<lparr>events := events w @
             [Urequests_post (GEMINI_ENDPOINT cfg @ ''?key='' @ GEMINI_API_KEY cfg)
                (ujson_dumps (gemini_payload prompt)) json_headers,
              Print (''[ERROR] Failed to reach Gemini endpoint: '' @ str_exn pf e)]\<rparr>))
   \<and> (\<exists>v. fst (request_gemini_response pf cfg gout' prompt' w') = Inr v)"
proof -
  note request_endpoint_failure [of meth out e pf url params w]
  moreover note request_endpoint_returns [of pf out' url' params' meth' w']
  moreover note request_gemini_response_failure [of gout e pf cfg prompt w]
  moreover note request_gemini_response_returns [of pf cfg gout' prompt' w']
  ultimately show ?thesis by blast
qed

theorem remote_call_failure_witness:
  "request_endpoint pf0 (Inl OSError) ''http://h/status'' PNone ''get'' w0 =
     (Inr PNone, \<lparr>humidity_readings = [],
        events = [Urequests_get ''http://h/status'',
                  Print ''[ERROR] Failed to reach endpoint http://h/status: error'']\<rparr>)
   \<and> request_endpoint pf0 (Inr \<lparr>json_result = Inl ValueError, close_result = None\<rparr>)
        ''http://h/status'' PNone ''get'' w0 =
     (Inr PNone, \<lparr>humidity_readings = [],
        events = [Urequests_get ''http://h/status'',
                  Print ''[ERROR] Failed to reach endpoint http://h/status: error'']\<rparr>)
   \<and> request_gemini_response pf0 CONFIG (Inr \<lparr>json_result = Inl ValueError, close_result = None\<rparr>)
        ''advice?'' w0 =
     (Inr PNone, \<lparr>humidity_readings = [],
        events = [Urequests_post (GEMINI_ENDPOINT CONFIG @ ''?key='' @ GEMINI_API_KEY CONFIG)
                    (ujson_dumps (gemini_payload ''advice?'')) json_headers,
                  Print ''[ERROR] Failed to reach Gemini endpoint: error'']\<rparr>)"
  using remote_call_failure
      [where meth = "''get''" and out = "Inl OSError" and e = OSError and pf = pf0
         and url = "''http://h/status''" and params = PNone and w = w0]
    remote_call_failure
      [where meth = "''get''" and out = "Inr \<lparr>json_result = Inl ValueError, close_result = None\<rparr>"
         and e = ValueError and pf = pf0 and url = "''http://h/status''" and params = PNone and w = w0
         and gout = "Inr \<lparr>json_result = Inl ValueError, close_result = None\<rparr>" and cfg = CONFIG
         and prompt = "''advice?''"]
  by (simp add: pf0_def w0_def)

text \<open>
  Claim C8. Every POST call of \<^verbatim>\<open>request_endpoint\<close> hands \<^verbatim>\<open>urequests.post\<close> the JSON
  text of the parameters with the header Content-Type: application/json, and returns None
  whether the transport raises or answers; the answer is never read, so the result is the same
  for every response.
\<close>

theorem request_endpoint_post:
  "fst (request_endpoint pf out url params ''post'' w) = Inr PNone
   \<and> (\<exists>rest. events (snd (request_endpoint pf out url params ''post'' w)) =
         events w @ Urequests_post url (ujson_dumps params) [(''Content-Type'', ''application/json'')] # rest)
   \<and> request_endpoint pf (Inr r) url params ''post'' w =
       (Inr PNone, w\<lparr>events := events w @ [Urequests_post url (ujson_dumps params) json_headers]\<rparr>)
   \<and> request_endpoint pf (Inl e) url params ''post'' w =
       (Inr PNone, w\<lparr>events := events w @ [Urequests_post url (ujson_dumps params) json_headers,
           Print (''[ERROR] Failed to reach endpoint '' @ url @ '': '' @ str_exn pf e)]\<rparr>)"
  by (cases out)
     (simp_all add: request_endpoint_post_raise request_endpoint_post_response json_headers_def)

section \<open>The status check\<close>

text \<open>
  Claim C1, at the inputs where the code departs from it. When the status call fails (its
  result is None) or the response is an object without the key items, \<^verbatim>\<open>check_sensor_status\<close>
  indexes the default \<^verbatim>\<open>{}\<close> with 0 and raises KeyError; nothing in \<^verbatim>\<open>main\<close> catches
  it, so the loop is left with that exception instead of going on to the next cycle.
\<close>

theorem check_sensor_status_raises_without_items:
  "fst (check_sensor_status pf cfg (Inl e) w) = Inl KeyError
   \<and> fst (check_sensor_status pf cfg
        (Inr \<lparr> json_result = Inr (PDict (filter (\<lambda>kv. fst kv \<noteq> ''items'') kvs)), close_result = None \<rparr>) w)
       = Inl KeyError
   \<and> fst (main_loop pf cfg (env\<lparr>status_response := Inl e\<rparr> # envs) w) = Inl KeyError"
  by (simp add: check_sensor_status_transport_raises check_sensor_status_response
      status_is_on_no_items main_loop_body_def and_then_def)

section \<open>One cycle of processing\<close>

text \<open>
  Claim C4 as stated fails twice. With a sensor that answers None the cycle shows the idle
  message only, and the message Sensor error is not among its effects. And when the display
  raises on the idle message, that exception leaves the loop instead of the loop going on to
  the next cycle.
\<close>

theorem process_humidity_null_reading_counterexample:
  "humidity_result (env_ok\<lparr>humidity_result := None\<rparr>) = None
   \<and> main_loop_body pf0 CONFIG (env_ok\<lparr>humidity_result := None\<rparr>) w0 =
       (Inr (), \<lparr>humidity_readings = [],
          events = [Urequests_get (SENSOR_STATUS_ENDPOINT CONFIG),
                    Lcd_clear, Lcd_putstr ''Sensor working...'', Sleep 2, Sleep 2]\<rparr>)
   \<and> Lcd_putstr ''Sensor error'' \<notin>
       set (events (snd (main_loop_body pf0 CONFIG (env_ok\<lparr>humidity_result := None\<rparr>) w0)))
   \<and> humidity_result (env_ok\<lparr>humidity_result := None, lcd_working := Clear_raises OSError\<rparr>) = None
   \<and> fst (main_loop pf0 CONFIG
        [env_ok\<lparr>humidity_result := None, lcd_working := Clear_raises OSError\<rparr>, env_ok] w0)
       = Inl OSError"
  by (simp add: main_loop_body_def env_ok_def check_sensor_status_on and_then_def
      process_humidity_null update_lcd_ok update_lcd_clear_raises emit_def w0_def)

text \<open>
  Claim C4, amended. In every enabled cycle whose sensor read yields None,
  \<^verbatim>\<open>process_humidity\<close> changes nothing: no value is appended to the history, no advisory call
  and no upload is issued, nothing is shown and nothing is raised. The loop then shows the idle
  message, sleeps and goes on to the next cycle, unless the display raises on the idle message:
  then that exception leaves the loop.
\<close>

theorem process_humidity_null_reading:
  assumes "check_sensor_status pf cfg (status_response env) w = (Inr True, w1)"
    and "measure_result env = None" and "humidity_result env = None"
  shows "process_humidity pf cfg env w1 = (Inr (), w1)
       \<and> humidity_readings w1 = humidity_readings w
       \<and> main_loop_body pf cfg env w =
           (case lcd_working env of
              Lcd_ok \<Rightarrow>
                (Inr (), w1\<lparr>events := events w1 @
                   [Lcd_clear, Lcd_putstr ''Sensor working...'', Sleep 2, Sleep 2]\<rparr>)
            | Clear_raises e \<Rightarrow> (Inl e, w1)
            | Putstr_raises e \<Rightarrow> (Inl e, w1\<lparr>events := events w1 @ [Lcd_clear]\<rparr>))"
proof -
  have "frame w w1"
    using frame_check_sensor_status [of w pf cfg "status_response env"] assms(1) by simp
  then have "humidity_readings w1 = humidity_readings w"
    by (simp add: frame_def)
  then show ?thesis using assms
    by (cases "lcd_working env")
       (simp_all add: main_loop_body_def and_then_def process_humidity_null update_lcd_cases emit_def)
qed

theorem process_humidity_null_reading_witness:
  "process_humidity pf0 CONFIG (env_ok\<lparr>humidity_result := None\<rparr>)
     (w0\<lparr>events := [Urequests_get (SENSOR_STATUS_ENDPOINT CONFIG)]\<rparr>) =
     (Inr (), w0\<lparr>events := [Urequests_get (SENSOR_STATUS_ENDPOINT CONFIG)]\<rparr>)
   \<and> main_loop_body pf0 CONFIG (env_ok\<lparr>humidity_result := None\<rparr>) w0 =
       (Inr (), w0\<lparr>events := [Urequests_get (SENSOR_STATUS_ENDPOINT CONFIG),
          Lcd_clear, Lcd_putstr ''Sensor working...'', Sleep 2, Sleep 2]\<rparr>)
   \<and> main_loop_body pf0 CONFIG
        (env_ok\<lparr>humidity_result := None, lcd_working := Putstr_raises OSError\<rparr>) w0 =
       (Inl OSError, w0\<lparr>events := [Urequests_get (SENSOR_STATUS_ENDPOINT CONFIG), Lcd_clear]\<rparr>)"
proof -
  have a: "check_sensor_status pf0 CONFIG (status_response (env_ok\<lparr>humidity_result := None\<rparr>)) w0 =
          (Inr True, w0\<lparr>events := [Urequests_get (SENSOR_STATUS_ENDPOINT CONFIG)]\<rparr>)"
    by (simp add: env_ok_def check_sensor_status_on w0_def)
  have b: "check_sensor_status pf0 CONFIG
             (status_response (env_ok\<lparr>humidity_result := None, lcd_working := Putstr_raises OSError\<rparr>)) w0 =
          (Inr True, w0\<lparr>events := [Urequests_get (SENSOR_STATUS_ENDPOINT CONFIG)]\<rparr>)"
    by (simp add: env_ok_def check_sensor_status_on w0_def)
  from process_humidity_null_reading [OF a] process_humidity_null_reading [OF b]
  show ?thesis by (simp add: env_ok_def)
qed

text \<open>
  Claim C5, at the inputs where the code departs from it. For a non-empty advisory response
  with an empty parts list, or with no candidates at all, the defaults of the \<^verbatim>\<open>get\<close> chain
  end in an empty list that is indexed with 0: \<^verbatim>\<open>generate_vegetable_suggestions\<close> raises
  IndexError and never shows the message Failed to get advice.
\<close>

theorem generate_vegetable_suggestions_raises_on_missing_fields:
  "fst (generate_vegetable_suggestions pf cfg (Inr advice_no_parts) lcd h st w) = Inl IndexError
   \<and> fst (generate_vegetable_suggestions pf cfg
        (Inr \<lparr>json_result = Inr (PDict [(''error'', PStr ''quota exceeded'')]), close_result = None\<rparr>)
        lcd h st w) = Inl IndexError
   \<and> Lcd_putstr ''Failed to get advice'' \<notin>
       set (events (snd (generate_vegetable_suggestions pf cfg (Inr advice_no_parts) lcd h st w0)))"
  by (simp add: generate_vegetable_suggestions_response
        [where data = "PDict [(''candidates'', PList [PDict [(''content'', PDict [(''parts'', PList [])])]])]"]
      generate_vegetable_suggestions_response
        [where data = "PDict [(''error'', PStr ''quota exceeded'')]"]
      advice_no_parts_def advice_text_def bind_exn_def w0_def)




text \<open>
  Claim C9 as stated fails: in an enabled cycle whose sensor returns 65, a display that raises
  on the reading, or on the advice, leaves the value in the history, but no upload is issued.
\<close>

theorem process_humidity_no_upload_counterexample:
  "humidity_result (env_ok\<lparr>lcd_reading := Clear_raises OSError\<rparr>) = Some 65
   \<and> humidity_readings (snd (process_humidity pf0 CONFIG
        (env_ok\<lparr>lcd_reading := Clear_raises OSError\<rparr>) w0)) = [65]
   \<and> filter (is_post_to (DATA_INSERT_ENDPOINT CONFIG))
        (events (snd (process_humidity pf0 CONFIG (env_ok\<lparr>lcd_reading := Clear_raises OSError\<rparr>) w0)))
       = []
   \<and> humidity_result (env_ok\<lparr>lcd_advice := Clear_raises OSError\<rparr>) = Some 65
   \<and> humidity_readings (snd (process_humidity pf0 CONFIG
        (env_ok\<lparr>lcd_advice := Clear_raises OSError\<rparr>) w0)) = [65]
   \<and> filter (is_post_to (DATA_INSERT_ENDPOINT CONFIG))
        (events (snd (process_humidity pf0 CONFIG (env_ok\<lparr>lcd_advice := Clear_raises OSError\<rparr>) w0)))
       = []"
proof -
  have urls: "GEMINI_ENDPOINT CONFIG @ ''?key='' @ GEMINI_API_KEY CONFIG \<noteq> DATA_INSERT_ENDPOINT CONFIG"
    by (simp add: CONFIG_def)
  have h: "humidity_result (env_ok\<lparr>lcd_reading := Clear_raises OSError\<rparr>) = Some 65"
    "humidity_result (env_ok\<lparr>lcd_advice := Clear_raises OSError\<rparr>) = Some 65"
    by (simp_all add: env_ok_def)
  show ?thesis
    unfolding process_humidity_reading_display_raises_example
      process_humidity_advice_display_raises_example
    using urls h by simp
qed

text \<open>
  Claim C9, amended. In every enabled cycle whose sensor returns a value \<open>v\<close>, the value is
  appended to the history, whatever happens later. Once the display has taken the reading, the
  trace holds the reading with its status. When moreover the advisory step returns, the upload
  is issued with exactly the fields humidity \<open>v\<close>, datetime and avg_humidity, the mean of the
  history with \<open>v\<close> included. The datetime has the shape dddd-dd-dd dd:dd:dd, and its six
  numbers are the year, month, day, hour, minute and second of the local clock. With thresholds
  60 and 75 the status of 65 is Optimal. When the display raises on the reading, the cycle issues
  no POST at all.
\<close>

theorem process_humidity_records_and_uploads:
  assumes "measure_result env = None" and "humidity_result env = Some v"
  shows "humidity_readings (snd (process_humidity pf cfg env w)) = humidity_readings w @ [v]
       \<and> (lcd_reading env = Lcd_ok \<longrightarrow>
            prefix (events (reading_shown pf cfg v w)) (events (snd (process_humidity pf cfg env w))))
       \<and> (lcd_reading env = Lcd_ok \<and>
          generate_vegetable_suggestions pf cfg (gemini_response env) (lcd_advice env)
            v (calculate_humidity_status cfg v) (reading_shown pf cfg v w) = (Inr (), w3) \<longrightarrow>
            process_humidity pf cfg env w =
              (Inr (), w3\<lparr>events := events w3 @
                 Urequests_post (DATA_INSERT_ENDPOINT cfg)
                   (ujson_dumps (PDict [(''humidity'', PNum v),
                      (''datetime'', PStr (format_datetime (localtime_result env))),
                      (''avg_humidity'',
                         PNum (sum_list (humidity_readings w @ [v]) /
                               real (length (humidity_readings w @ [v]))))]))
                   [(''Content-Type'', ''application/json'')] #
                 (case data_response env of
                    Inl e \<Rightarrow> [Print (''[ERROR] Failed to reach endpoint '' @ DATA_INSERT_ENDPOINT cfg @
                                  '': '' @ str_exn pf e)]
                  | Inr r \<Rightarrow> [])\<rparr>))
       \<and> (localtime_in_range (localtime_result env) \<longrightarrow>
            is_datetime_format (format_datetime (localtime_result env)) \<and>
            datetime_fields (format_datetime (localtime_result env)) = clock_fields (localtime_result env))
       \<and> (IDEAL_HUMIDITY_LOW cfg = 60 \<and> IDEAL_HUMIDITY_HIGH cfg = 75 \<and> v = 65 \<longrightarrow>
            calculate_humidity_status cfg v = ''Optimal'')
       \<and> (lcd_reading env \<noteq> Lcd_ok \<longrightarrow>
            filter is_post (events (snd (process_humidity pf cfg env w))) = filter is_post (events w))"
proof -
  have c1: "humidity_readings (snd (process_humidity pf cfg env w)) = humidity_readings w @ [v]"
    using assms by (simp add: process_humidity_history)
  have c2: "lcd_reading env = Lcd_ok \<longrightarrow>
      prefix (events (reading_shown pf cfg v w)) (events (snd (process_humidity pf cfg env w)))"
    using frame_process_humidity_shown [OF assms, of pf cfg w] by (simp add: frame_def)
  note c3 = process_humidity_upload [OF assms, of pf cfg w w3]
  have c4: "localtime_in_range (localtime_result env) \<longrightarrow>
      is_datetime_format (format_datetime (localtime_result env)) \<and>
      datetime_fields (format_datetime (localtime_result env)) = clock_fields (localtime_result env)"
    using format_datetime_shape datetime_fields_format_datetime by blast
  have c5: "IDEAL_HUMIDITY_LOW cfg = 60 \<and> IDEAL_HUMIDITY_HIGH cfg = 75 \<and> v = 65 \<longrightarrow>
      calculate_humidity_status cfg v = ''Optimal''"
    by (simp add: calculate_humidity_status_def)
  have c6: "lcd_reading env \<noteq> Lcd_ok \<longrightarrow>
      filter is_post (events (snd (process_humidity pf cfg env w))) = filter is_post (events w)"
    using process_humidity_reading_display_fails [OF assms, of pf cfg w] by blast
  from c1 c2 c3 c4 c5 c6 show ?thesis by blast
qed

theorem process_humidity_records_and_uploads_witness:
  "process_humidity pf0 CONFIG env_ok w0 =
     (Inr (), \<lparr>humidity_readings = [65],
        events =
          [Lcd_clear, Lcd_putstr ''Humidity: 65.00%\<newline>Optimal'', Sleep 3,
           Urequests_post (GEMINI_ENDPOINT CONFIG @ ''?key='' @ GEMINI_API_KEY CONFIG)
             (ujson_dumps (gemini_payload (advice_prompt pf0 65 ''Optimal''))) json_headers,
           Lcd_clear, Lcd_putstr ''Optimal\<newline>Keep produce chilled...'', Sleep 3,
           Urequests_post (DATA_INSERT_ENDPOINT CONFIG)
             (ujson_dumps (PDict [(''humidity'', PNum 65),
                (''datetime'', PStr ''2024-05-17 09:03:07''),
                (''avg_humidity'', PNum 65)]))
             [(''Content-Type'', ''application/json'')]]\<rparr>)
   \<and> is_datetime_format ''2024-05-17 09:03:07''
   \<and> datetime_fields ''2024-05-17 09:03:07'' = (2024, 5, 17, 9, 3, 7)"
proof -
  have m: "measure_result env_ok = None" and h: "humidity_result env_ok = Some 65"
    by (simp_all add: env_ok_def)
  have g: "generate_vegetable_suggestions pf0 CONFIG (gemini_response env_ok) (lcd_advice env_ok)
             65 (calculate_humidity_status CONFIG 65) (reading_shown pf0 CONFIG 65 w0) =
           (Inr (), (reading_shown pf0 CONFIG 65 w0)\<lparr>events := events (reading_shown pf0 CONFIG 65 w0) @
              [Urequests_post (GEMINI_ENDPOINT CONFIG @ ''?key='' @ GEMINI_API_KEY CONFIG)
                 (ujson_dumps (gemini_payload (advice_prompt pf0 65 ''Optimal''))) json_headers,
               Lcd_clear, Lcd_putstr (''Optimal'' @ ''\<newline>Keep produce chilled...''), Sleep 3]\<rparr>)"
    unfolding status_CONFIG_65 by (simp add: env_ok_def generate_vegetable_suggestions_advice_ok)
  have e: "lcd_reading env_ok = Lcd_ok" "data_response env_ok = Inr upload_ok"
    "localtime_result env_ok = (2024, 5, 17, 9, 3, 7, 4, 138)"
    by (simp_all add: env_ok_def)
  from process_humidity_records_and_uploads [OF m h, of pf0 CONFIG w0, where ?w3.0 = "(reading_shown pf0 CONFIG 65 w0)\<lparr>events := events (reading_shown pf0 CONFIG 65 w0) @
              [Urequests_post (GEMINI_ENDPOINT CONFIG @ ''?key='' @ GEMINI_API_KEY CONFIG)
                 (ujson_dumps (gemini_payload (advice_prompt pf0 65 ''Optimal''))) json_headers,
               Lcd_clear, Lcd_putstr (''Optimal'' @ ''\<newline>Keep produce chilled...''), Sleep 3]\<rparr>"]
  show ?thesis
    using g localtime_in_range_example
    by (simp add: e status_CONFIG_65 format_datetime_example reading_shown_def w0_def pf0_def
        clock_fields_def)
qed

section \<open>The reading history is append-only\<close>

text \<open>
  Claim C10. No operation but \<^verbatim>\<open>process_humidity\<close> touches the reading history;
  \<^verbatim>\<open>process_humidity\<close> appends the sensor's value when there is one and nothing otherwise; a
  cycle keeps the old history as a prefix and adds at most one value, and so does every run of
  the loop per cycle. The appended value stays when a later step fails: if the display raises
  right after the append, the value is in the history although the cycle issues no POST.
\<close>

theorem humidity_readings_append_only:
  "humidity_readings (log_msg message level w) = humidity_readings w
   \<and> humidity_readings (snd (update_lcd lout message delay w)) = humidity_readings w
   \<and> humidity_readings (snd (request_endpoint pf hout url params method w)) = humidity_readings w
   \<and> humidity_readings (snd (check_sensor_status pf cfg hout w)) = humidity_readings w
   \<and> humidity_readings (snd (store_humidity_data pf cfg lt hout h a w)) = humidity_readings w
   \<and> humidity_readings (snd (request_gemini_response pf cfg hout prompt w)) = humidity_readings w
   \<and> humidity_readings (snd (generate_vegetable_suggestions pf cfg hout lout h st w)) = humidity_readings w
   \<and> humidity_readings (snd (connect_wifi isconnected ip ssid password w)) = humidity_readings w
   \<and> humidity_readings (snd (process_humidity pf cfg env w)) =
       humidity_readings w @
         (case measure_result env of
            Some e \<Rightarrow> []
          | None \<Rightarrow> (case humidity_result env of None \<Rightarrow> [] | Some v \<Rightarrow> [v]))
   \<and> grows 1 w (snd (main_loop_body pf cfg env w))
   \<and> grows (length envs) w (snd (main_loop pf cfg envs w))
   \<and> grows (length envs) w (snd (main pf cfg lcd_banner isconnected ip lcd_fail envs w))
   \<and> (measure_result env = None \<and> humidity_result env = Some v' \<and> lcd_reading env = Clear_raises e' \<longrightarrow>
        humidity_readings (snd (process_humidity pf cfg env w)) = humidity_readings w @ [v'] \<and>
        filter is_post (events (snd (process_humidity pf cfg env w))) = filter is_post (events w))"
proof -
  have "humidity_readings (log_msg message level w) = humidity_readings w"
    using frame_log_msg [of w message level] by (simp add: frame_def)
  moreover have "humidity_readings (snd (update_lcd lout message delay w)) = humidity_readings w"
    using frame_update_lcd [of w lout message delay] by (simp add: frame_def)
  moreover have "humidity_readings (snd (request_endpoint pf hout url params method w)) = humidity_readings w"
    using frame_request_endpoint [of w pf hout url params "method"] by (simp add: frame_def)
  moreover have "humidity_readings (snd (check_sensor_status pf cfg hout w)) = humidity_readings w"
    using frame_check_sensor_status [of w pf cfg hout] by (simp add: frame_def)
  moreover have "humidity_readings (snd (store_humidity_data pf cfg lt hout h a w)) = humidity_readings w"
    using frame_store_humidity_data [of w pf cfg lt hout h a] by (simp add: frame_def)
  moreover have "humidity_readings (snd (request_gemini_response pf cfg hout prompt w)) = humidity_readings w"
    using frame_request_gemini_response [of w pf cfg hout prompt] by (simp add: frame_def)
  moreover have "humidity_readings (snd (generate_vegetable_suggestions pf cfg hout lout h st w)) =
      humidity_readings w"
    using frame_generate_vegetable_suggestions [of w pf cfg hout lout h st] by (simp add: frame_def)
  moreover have "humidity_readings (snd (connect_wifi isconnected ip ssid password w)) = humidity_readings w"
    using frame_connect_wifi [of w isconnected ip ssid password] by (simp add: frame_def)
  moreover note process_humidity_history [of pf cfg env w]
  moreover note grows_main_loop_body [of w pf cfg env]
  moreover note grows_main_loop [of envs w pf cfg]
  moreover note grows_main [of envs w pf cfg lcd_banner isconnected ip lcd_fail]
  moreover have "humidity_readings (snd (process_humidity pf cfg env w)) = humidity_readings w @ [v'] \<and>
        filter is_post (events (snd (process_humidity pf cfg env w))) = filter is_post (events w)"
    if "measure_result env = None \<and> humidity_result env = Some v' \<and> lcd_reading env = Clear_raises e'"
    using that process_humidity_display_fails [of env v' e' pf cfg w]
    by (simp add: process_humidity_history)
  ultimately show ?thesis by blast
qed

theorem humidity_readings_append_only_witness:
  "humidity_readings (snd (process_humidity pf0 CONFIG (env_ok\<lparr>lcd_reading := Clear_raises OSError\<rparr>) w0))
     = [65]
   \<and> filter is_post (events (snd (process_humidity pf0 CONFIG
        (env_ok\<lparr>lcd_reading := Clear_raises OSError\<rparr>) w0))) = []"
  using humidity_readings_append_only
    [where env = "env_ok\<lparr>lcd_reading := Clear_raises OSError\<rparr>" and pf = pf0 and cfg = CONFIG
       and w = w0 and v' = 65 and e' = OSError]
  by (simp add: env_ok_def w0_def)

end
